theory Spec2Isabelle
  imports Main
begin

section \<open>Strings\<close>

text \<open>
  Python strings are modelled as \<open>string\<close> (a list of characters, read as the UTF-8
  bytes of the text). \<open>startswith\<close> is \<open>str.startswith\<close>, \<open>contains sub s\<close> is
  the Python test \<open>sub in s\<close>, and \<open>str_int\<close> is the decimal rendering that an
  f-string gives an integer.

  \<open>str.lower\<close> is a built-in of Python that follows the Unicode case tables; it is not
  code of this repository. Every function below that uses it takes it as its first
  parameter \<open>lower\<close>, so what is proved holds whatever \<open>str.lower\<close> does.
\<close>

definition startswith :: "string \<Rightarrow> string \<Rightarrow> bool" where
  "startswith s p = (take (length p) s = p)"

fun contains :: "string \<Rightarrow> string \<Rightarrow> bool" where
  "contains sub [] = (sub = [])"
| "contains sub (c # cs) = (startswith (c # cs) sub \<or> contains sub cs)"

definition digit_char :: "nat \<Rightarrow> char" where
  "digit_char d = ''0123456789'' ! (d mod 10)"

fun str_nat :: "nat \<Rightarrow> string" where
  "str_nat n =
     (if n < 10 then [digit_char n]
      else str_nat (n div 10) @ [digit_char (n mod 10)])"

declare str_nat.simps [simp del]

definition str_int :: "int \<Rightarrow> string" where
  "str_int i = (if i < 0 then CHR ''-'' # str_nat (nat (- i)) else str_nat (nat i))"

section \<open>Filter composition of list-tasks\<close>

text \<open>
  The block of \<open>handle_list_tasks\<close> under the comment "Handle special filters"
  (tools/tasks.py). The accumulator \<open>filter_string\<close> is an optional string; Python's
  truth test on it is false for \<open>None\<close> and for the empty string, on an optional
  boolean it is false for \<open>None\<close> and \<open>False\<close>, and on an optional integer it is false
  for \<open>None\<close> and \<open>0\<close>.
\<close>

definition truthy_str :: "string option \<Rightarrow> bool" where
  "truthy_str s = (case s of None \<Rightarrow> False | Some v \<Rightarrow> v \<noteq> [])"

definition truthy_bool :: "bool option \<Rightarrow> bool" where
  "truthy_bool b = (case b of None \<Rightarrow> False | Some v \<Rightarrow> v)"

definition truthy_int :: "int option \<Rightarrow> bool" where
  "truthy_int i = (case i of None \<Rightarrow> False | Some v \<Rightarrow> v \<noteq> 0)"

definition and_clause :: "string option \<Rightarrow> string \<Rightarrow> string \<Rightarrow> string option" where
  "and_clause filter_string wrapped bare =
     (if truthy_str filter_string
      then Some (''('' @ the filter_string @ '') & '' @ wrapped)
      else Some bare)"

definition compose_filter ::
  "string option \<Rightarrow> bool option \<Rightarrow> bool option \<Rightarrow> int option \<Rightarrow> string option" where
  "compose_filter filter_string due_today due_upcoming priority =
     (let f1 = (if truthy_bool due_today
                then and_clause filter_string ''today'' ''today''
                else filter_string);
          f2 = (if truthy_bool due_upcoming
                then and_clause f1 ''(today | overdue | 7 days)'' ''today | overdue | 7 days''
                else f1);
          f3 = (if truthy_int priority
                then and_clause f2 (''p'' @ str_int (the priority))
                                   (''p'' @ str_int (the priority))
                else f2)
      in f3)"

section \<open>Error taxonomy and the \<open>handle_exceptions\<close> decorator\<close>

text \<open>
  utils/error_handling.py. \<open>MCPError\<close> is the base class with its three subclasses;
  each carries a message and optional details (a dictionary, here an association list).
  The other constructors stand for Python exceptions outside the taxonomy:
  \<open>ValueError\<close> (pydantic's validation error is a subclass of it), \<open>KeyError\<close> with
  the missing key, and any other \<open>Exception\<close> with its text.
\<close>

type_synonym details = "(string \<times> string) list option"

datatype exn =
    MCPError string details
  | ValidationError string details
  | AuthenticationError string details
  | TodoistError string details
  | ValueError string
  | KeyError string
  | OtherException string

fun is_MCPError :: "exn \<Rightarrow> bool" where
  "is_MCPError (MCPError m d) = True"
| "is_MCPError (ValidationError m d) = True"
| "is_MCPError (AuthenticationError m d) = True"
| "is_MCPError (TodoistError m d) = True"
| "is_MCPError (ValueError m) = False"
| "is_MCPError (KeyError k) = False"
| "is_MCPError (OtherException m) = False"

fun is_ValueError :: "exn \<Rightarrow> bool" where
  "is_ValueError (ValueError m) = True"
| "is_ValueError e = False"

text \<open>\<open>str(e)\<close>: the message; for a \<open>KeyError\<close> the quoted key.\<close>

fun str_exn :: "exn \<Rightarrow> string" where
  "str_exn (MCPError m d) = m"
| "str_exn (ValidationError m d) = m"
| "str_exn (AuthenticationError m d) = m"
| "str_exn (TodoistError m d) = m"
| "str_exn (ValueError m) = m"
| "str_exn (KeyError k) = [CHR 0x27] @ k @ [CHR 0x27]"
| "str_exn (OtherException m) = m"

text \<open>The three \<open>except\<close> clauses of \<open>wrapper\<close>, in their order.\<close>

definition wrapper_except :: "(string \<Rightarrow> string) \<Rightarrow> string \<Rightarrow> exn \<Rightarrow> exn" where
  "wrapper_except lower func_name e =
     (if is_MCPError e then e
      else if is_ValueError e then ValidationError (str_exn e) None
      else if contains ''todoist'' (lower (str_exn e))
           then TodoistError (''Todoist API error: '' @ str_exn e)
                             (Some [(''function'', func_name)])
           else MCPError (''An unexpected error occurred: '' @ str_exn e)
                         (Some [(''function'', func_name)]))"

text \<open>
  A call either raises or returns: \<open>exn + 'r\<close>. \<open>wrapper\<close> is a plain \<open>def\<close>: it
  calls \<open>func\<close> inside \<open>try\<close> and returns what the call returns.
\<close>

definition handle_exceptions :: "(string \<Rightarrow> string) \<Rightarrow> string \<Rightarrow> ('a \<Rightarrow> exn + 'r) \<Rightarrow> 'a \<Rightarrow> exn + 'r" where
  "handle_exceptions lower func_name func args =
     (case func args of
        Inr r \<Rightarrow> Inr r
      | Inl e \<Rightarrow> Inl (wrapper_except lower func_name e))"

section \<open>Coroutines\<close>

text \<open>
  Every client method and every handler is an \<open>async def\<close>. Calling one runs none of
  its body: the call returns a coroutine object, and the body runs when the coroutine is
  awaited. A coroutine is a computation over the world \<open>'w\<close> that raises or returns;
  \<open>async_def body\<close> is the callable that an \<open>async def\<close> with that body defines, and
  \<open>await\<close> evaluates the call expression first and then runs the coroutine it got.
\<close>

type_synonym ('w, 'a) coroutine = "'w \<Rightarrow> (exn + 'a) \<times> 'w"

definition async_def :: "('a \<Rightarrow> ('w, 'r) coroutine) \<Rightarrow> 'a \<Rightarrow> exn + ('w, 'r) coroutine" where
  "async_def body args = Inr (body args)"

definition await :: "exn + ('w, 'r) coroutine \<Rightarrow> ('w, 'r) coroutine" where
  "await called w = (case called of Inl e \<Rightarrow> (Inl e, w) | Inr co \<Rightarrow> co w)"

definition return :: "'a \<Rightarrow> ('w, 'a) coroutine" where
  "return v w = (Inr v, w)"

definition raise :: "exn \<Rightarrow> ('w, 'a) coroutine" where
  "raise e w = (Inl e, w)"

definition bind :: "('w, 'a) coroutine \<Rightarrow> ('a \<Rightarrow> ('w, 'b) coroutine) \<Rightarrow> ('w, 'b) coroutine" where
  "bind m f w = (case m w of (Inl e, w') \<Rightarrow> (Inl e, w') | (Inr v, w') \<Rightarrow> f v w')"

text \<open>\<open>try: m  except Exception: h\<close>\<close>

definition try_except :: "('w, 'a) coroutine \<Rightarrow> (exn \<Rightarrow> ('w, 'a) coroutine) \<Rightarrow> ('w, 'a) coroutine" where
  "try_except m h w = (case m w of (Inl e, w') \<Rightarrow> h e w' | (Inr v, w') \<Rightarrow> (Inr v, w'))"

definition lift :: "exn + 'a \<Rightarrow> ('w, 'a) coroutine" where
  "lift r w = (r, w)"

section \<open>Entities of the remote service\<close>

text \<open>
  The objects of the remote SDK, with the attributes that models.py reads from them.
  An attribute that the code reads with \<open>getattr(..., None)\<close> or guards with \<open>or\<close>
  is optional.
\<close>

record Due =
  due_date :: "string option"
  due_string :: "string option"
  due_datetime :: "string option"
  due_recurring :: "bool option"

record Task =
  Task_id :: string
  Task_content :: string
  Task_description :: "string option"
  Task_project_id :: "string option"
  Task_section_id :: "string option"
  Task_parent_id :: "string option"
  Task_labels :: "string list option"
  Task_priority :: int
  Task_due :: "Due option"
  Task_url :: string
  Task_comment_count :: int
  Task_creator_id :: "string option"
  Task_assignee_id :: "string option"

record Project =
  Project_id :: string
  Project_name :: string
  Project_color :: string
  Project_parent_id :: "string option"
  Project_order :: "int option"
  Project_comment_count :: int
  Project_is_shared :: bool
  Project_is_favorite :: bool
  Project_is_inbox_project :: bool
  Project_is_team_inbox :: bool
  Project_view_style :: string
  Project_url :: string

record Label =
  Label_id :: string
  Label_name :: string
  Label_color :: string
  Label_order :: "int option"
  Label_is_favorite :: bool

section \<open>The remote SDK and the world\<close>

text \<open>
  The keyword parameters that \<open>add_task\<close> and \<open>update_task\<close> share (all but the
  task id and the content).
\<close>

record task_kwargs =
  kw_description :: "string option"
  kw_project_id :: "string option"
  kw_section_id :: "string option"
  kw_parent_id :: "string option"
  kw_order :: "int option"
  kw_labels :: "string list option"
  kw_priority :: "int option"
  kw_due_string :: "string option"
  kw_due_date :: "string option"
  kw_due_datetime :: "string option"
  kw_due_lang :: "string option"
  kw_assignee_id :: "string option"

text \<open>
  A call of the SDK with its arguments. \<open>GetTasks\<close> carries \<open>project_id\<close>,
  \<open>section_id\<close>, \<open>label_id\<close> and \<open>filter\<close> (the handlers never pass \<open>lang\<close> or
  \<open>ids\<close>); \<open>AddProject\<close> carries name, parent id, color and favorite;
  \<open>UpdateProject\<close> and \<open>UpdateLabel\<close> carry the id, name, color and favorite;
  \<open>AddLabel\<close> carries name, color and favorite.
\<close>

datatype call =
    GetTasks "string option" "string option" "string option" "string option"
  | GetTask string
  | AddTask string task_kwargs
  | UpdateTask string "string option" task_kwargs
  | CloseTask string
  | ReopenTask string
  | DeleteTask string
  | GetProjects
  | GetProject string
  | AddProject string "string option" "string option" "bool option"
  | UpdateProject string "string option" "string option" "bool option"
  | DeleteProject string
  | GetLabels
  | GetLabel string
  | AddLabel string "string option" "bool option"
  | UpdateLabel string "string option" "string option" "bool option"
  | DeleteLabel string

text \<open>
  The remote service is a parameter: a state \<open>'s\<close> and, for every SDK method, a
  function that from the arguments and the state gives the new state and either the
  returned value or the text \<open>str(e)\<close> of the exception the SDK raised.
\<close>

type_synonym ('s, 'a) remote_fn = "'s \<Rightarrow> (string + 'a) \<times> 's"

record 's sdk =
  sdk_get_tasks ::
    "string option \<Rightarrow> string option \<Rightarrow> string option \<Rightarrow> string option \<Rightarrow> ('s, Task list) remote_fn"
  sdk_get_task :: "string \<Rightarrow> ('s, Task) remote_fn"
  sdk_add_task :: "string \<Rightarrow> task_kwargs \<Rightarrow> ('s, Task) remote_fn"
  sdk_update_task :: "string \<Rightarrow> string option \<Rightarrow> task_kwargs \<Rightarrow> ('s, bool) remote_fn"
  sdk_close_task :: "string \<Rightarrow> ('s, bool) remote_fn"
  sdk_reopen_task :: "string \<Rightarrow> ('s, bool) remote_fn"
  sdk_delete_task :: "string \<Rightarrow> ('s, bool) remote_fn"
  sdk_get_projects :: "('s, Project list) remote_fn"
  sdk_get_project :: "string \<Rightarrow> ('s, Project) remote_fn"
  sdk_add_project ::
    "string \<Rightarrow> string option \<Rightarrow> string option \<Rightarrow> bool option \<Rightarrow> ('s, Project) remote_fn"
  sdk_update_project ::
    "string \<Rightarrow> string option \<Rightarrow> string option \<Rightarrow> bool option \<Rightarrow> ('s, bool) remote_fn"
  sdk_delete_project :: "string \<Rightarrow> ('s, bool) remote_fn"
  sdk_get_labels :: "('s, Label list) remote_fn"
  sdk_get_label :: "string \<Rightarrow> ('s, Label) remote_fn"
  sdk_add_label :: "string \<Rightarrow> string option \<Rightarrow> bool option \<Rightarrow> ('s, Label) remote_fn"
  sdk_update_label ::
    "string \<Rightarrow> string option \<Rightarrow> string option \<Rightarrow> bool option \<Rightarrow> ('s, bool) remote_fn"
  sdk_delete_label :: "string \<Rightarrow> ('s, bool) remote_fn"

text \<open>
  The world of one tool invocation: the state of the remote service and the SDK calls
  issued so far, oldest first.
\<close>

record 's world =
  remote :: 's
  calls :: "call list"

section \<open>The client facade\<close>

text \<open>
  client.py. Every method of \<open>TodoistClient\<close> has the same body: it runs one SDK call
  in the executor inside \<open>try\<close>, returns its value, and in \<open>except Exception as e\<close>
  raises \<open>AuthenticationError\<close> when \<open>"Unauthorized" in str(e)\<close> and otherwise
  \<open>TodoistError\<close> with the method's own prefix before \<open>str(e)\<close>.
\<close>

definition facade_failure :: "string \<Rightarrow> string \<Rightarrow> exn" where
  "facade_failure failed_to msg =
     (if contains ''Unauthorized'' msg
      then AuthenticationError ''Invalid or expired Todoist API token'' None
      else TodoistError (failed_to @ msg) None)"

definition remote_call :: "call \<Rightarrow> string \<Rightarrow> ('s, 'a) remote_fn \<Rightarrow> ('s world, 'a) coroutine" where
  "remote_call c failed_to sdk_fn w =
     (case sdk_fn (remote w) of
        (Inl msg, s') \<Rightarrow> (Inl (facade_failure failed_to msg), \<lparr>remote = s', calls = calls w @ [c]\<rparr>)
      | (Inr v, s') \<Rightarrow> (Inr v, \<lparr>remote = s', calls = calls w @ [c]\<rparr>))"

text \<open>
  Each method is decorated with \<open>@handle_exceptions\<close>. The client holds the SDK object
  (\<open>self.api\<close>), which is the first argument here.
\<close>

definition get_tasks ::
  "(string \<Rightarrow> string) \<Rightarrow> 's sdk \<Rightarrow> string option \<Rightarrow> string option \<Rightarrow> string option \<Rightarrow> string option
     \<Rightarrow> exn + ('s world, Task list) coroutine" where
  "get_tasks lower api project_id section_id label_id filter_string =
     handle_exceptions lower ''get_tasks''
       (async_def (\<lambda>(p, s, l, f).
          remote_call (GetTasks p s l f) ''Failed to get tasks: '' (sdk_get_tasks api p s l f)))
       (project_id, section_id, label_id, filter_string)"

definition get_task :: "(string \<Rightarrow> string) \<Rightarrow> 's sdk \<Rightarrow> string \<Rightarrow> exn + ('s world, Task) coroutine" where
  "get_task lower api task_id =
     handle_exceptions lower ''get_task''
       (async_def (\<lambda>t. remote_call (GetTask t) ''Failed to get task: '' (sdk_get_task api t)))
       task_id"

definition create_task :: "(string \<Rightarrow> string) \<Rightarrow> 's sdk \<Rightarrow> string \<Rightarrow> task_kwargs \<Rightarrow> exn + ('s world, Task) coroutine" where
  "create_task lower api content kwargs =
     handle_exceptions lower ''create_task''
       (async_def (\<lambda>(c, k).
          remote_call (AddTask c k) ''Failed to create task: '' (sdk_add_task api c k)))
       (content, kwargs)"

definition update_task ::
  "(string \<Rightarrow> string) \<Rightarrow> 's sdk \<Rightarrow> string \<Rightarrow> string option \<Rightarrow> task_kwargs \<Rightarrow> exn + ('s world, bool) coroutine" where
  "update_task lower api task_id content kwargs =
     handle_exceptions lower ''update_task''
       (async_def (\<lambda>(t, c, k).
          remote_call (UpdateTask t c k) ''Failed to update task: '' (sdk_update_task api t c k)))
       (task_id, content, kwargs)"

definition close_task :: "(string \<Rightarrow> string) \<Rightarrow> 's sdk \<Rightarrow> string \<Rightarrow> exn + ('s world, bool) coroutine" where
  "close_task lower api task_id =
     handle_exceptions lower ''close_task''
       (async_def (\<lambda>t. remote_call (CloseTask t) ''Failed to close task: '' (sdk_close_task api t)))
       task_id"

definition reopen_task :: "(string \<Rightarrow> string) \<Rightarrow> 's sdk \<Rightarrow> string \<Rightarrow> exn + ('s world, bool) coroutine" where
  "reopen_task lower api task_id =
     handle_exceptions lower ''reopen_task''
       (async_def (\<lambda>t. remote_call (ReopenTask t) ''Failed to reopen task: '' (sdk_reopen_task api t)))
       task_id"

definition delete_task :: "(string \<Rightarrow> string) \<Rightarrow> 's sdk \<Rightarrow> string \<Rightarrow> exn + ('s world, bool) coroutine" where
  "delete_task lower api task_id =
     handle_exceptions lower ''delete_task''
       (async_def (\<lambda>t. remote_call (DeleteTask t) ''Failed to delete task: '' (sdk_delete_task api t)))
       task_id"

definition get_projects :: "(string \<Rightarrow> string) \<Rightarrow> 's sdk \<Rightarrow> exn + ('s world, Project list) coroutine" where
  "get_projects lower api =
     handle_exceptions lower ''get_projects''
       (async_def (\<lambda>u. remote_call GetProjects ''Failed to get projects: '' (sdk_get_projects api)))
       ()"

definition get_project :: "(string \<Rightarrow> string) \<Rightarrow> 's sdk \<Rightarrow> string \<Rightarrow> exn + ('s world, Project) coroutine" where
  "get_project lower api project_id =
     handle_exceptions lower ''get_project''
       (async_def (\<lambda>p. remote_call (GetProject p) ''Failed to get project: '' (sdk_get_project api p)))
       project_id"

definition create_project ::
  "(string \<Rightarrow> string) \<Rightarrow> 's sdk \<Rightarrow> string \<Rightarrow> string option \<Rightarrow> string option \<Rightarrow> bool option
     \<Rightarrow> exn + ('s world, Project) coroutine" where
  "create_project lower api name parent_id color favorite =
     handle_exceptions lower ''create_project''
       (async_def (\<lambda>(n, p, c, f).
          remote_call (AddProject n p c f) ''Failed to create project: '' (sdk_add_project api n p c f)))
       (name, parent_id, color, favorite)"

definition update_project ::
  "(string \<Rightarrow> string) \<Rightarrow> 's sdk \<Rightarrow> string \<Rightarrow> string option \<Rightarrow> string option \<Rightarrow> bool option
     \<Rightarrow> exn + ('s world, bool) coroutine" where
  "update_project lower api project_id name color favorite =
     handle_exceptions lower ''update_project''
       (async_def (\<lambda>(p, n, c, f).
          remote_call (UpdateProject p n c f) ''Failed to update project: ''
            (sdk_update_project api p n c f)))
       (project_id, name, color, favorite)"

definition delete_project :: "(string \<Rightarrow> string) \<Rightarrow> 's sdk \<Rightarrow> string \<Rightarrow> exn + ('s world, bool) coroutine" where
  "delete_project lower api project_id =
     handle_exceptions lower ''delete_project''
       (async_def (\<lambda>p.
          remote_call (DeleteProject p) ''Failed to delete project: '' (sdk_delete_project api p)))
       project_id"

definition get_labels :: "(string \<Rightarrow> string) \<Rightarrow> 's sdk \<Rightarrow> exn + ('s world, Label list) coroutine" where
  "get_labels lower api =
     handle_exceptions lower ''get_labels''
       (async_def (\<lambda>u. remote_call GetLabels ''Failed to get labels: '' (sdk_get_labels api)))
       ()"

definition get_label :: "(string \<Rightarrow> string) \<Rightarrow> 's sdk \<Rightarrow> string \<Rightarrow> exn + ('s world, Label) coroutine" where
  "get_label lower api label_id =
     handle_exceptions lower ''get_label''
       (async_def (\<lambda>l. remote_call (GetLabel l) ''Failed to get label: '' (sdk_get_label api l)))
       label_id"

definition create_label ::
  "(string \<Rightarrow> string) \<Rightarrow> 's sdk \<Rightarrow> string \<Rightarrow> string option \<Rightarrow> bool option
     \<Rightarrow> exn + ('s world, Label) coroutine" where
  "create_label lower api name color favorite =
     handle_exceptions lower ''create_label''
       (async_def (\<lambda>(n, c, f).
          remote_call (AddLabel n c f) ''Failed to create label: '' (sdk_add_label api n c f)))
       (name, color, favorite)"

definition update_label ::
  "(string \<Rightarrow> string) \<Rightarrow> 's sdk \<Rightarrow> string \<Rightarrow> string option \<Rightarrow> string option \<Rightarrow> bool option
     \<Rightarrow> exn + ('s world, bool) coroutine" where
  "update_label lower api label_id name color favorite =
     handle_exceptions lower ''update_label''
       (async_def (\<lambda>(l, n, c, f).
          remote_call (UpdateLabel l n c f) ''Failed to update label: '' (sdk_update_label api l n c f)))
       (label_id, name, color, favorite)"

definition delete_label :: "(string \<Rightarrow> string) \<Rightarrow> 's sdk \<Rightarrow> string \<Rightarrow> exn + ('s world, bool) coroutine" where
  "delete_label lower api label_id =
     handle_exceptions lower ''delete_label''
       (async_def (\<lambda>l. remote_call (DeleteLabel l) ''Failed to delete label: '' (sdk_delete_label api l)))
       label_id"

section \<open>Models\<close>

text \<open>
  models.py. A pydantic model is a record; building one either returns the record or
  raises pydantic's validation error, which is a \<open>ValueError\<close>. The tool arguments are
  taken as typed by the tool's schema. Where a handler reads a key with
  \<open>arguments.get(key)\<close> only, the value read is an option, \<open>None\<close> when the key is
  absent; where it tells an absent key from a present one, the key is an \<open>entry\<close> (see
  the section on argument dictionaries). \<open>created_at\<close> of \<open>TaskMCPOutput\<close> can be
  the wall clock and is left out.
\<close>

definition TodoistColor :: "string list" where
  "TodoistColor =
     [''berry_red'', ''red'', ''orange'', ''yellow'', ''olive_green'', ''lime_green'',
      ''green'', ''mint_green'', ''teal'', ''sky_blue'', ''light_blue'', ''blue'', ''grape'',
      ''violet'', ''lavender'', ''magenta'', ''salmon'', ''charcoal'', ''grey'', ''taupe'']"

record TaskDue =
  td_date :: "string option"
  td_string :: "string option"
  td_datetime :: "string option"
  td_recurring :: "bool option"

definition validate_date :: "string option \<Rightarrow> exn + string option" where
  "validate_date v =
     (if truthy_str v \<and> \<not> startswith (the v) ''20''
      then Inl (ValueError ''Date must be in YYYY-MM-DD format'')
      else Inr v)"

definition TaskDue_of :: "Due \<Rightarrow> exn + TaskDue" where
  "TaskDue_of d =
     (case validate_date (due_date d) of
        Inl e \<Rightarrow> Inl e
      | Inr v \<Rightarrow> Inr \<lparr>td_date = v, td_string = due_string d,
                      td_datetime = due_datetime d, td_recurring = due_recurring d\<rparr>)"

record TaskMCPOutput =
  out_id :: string
  out_content :: string
  out_description :: string
  out_project_id :: "string option"
  out_section_id :: "string option"
  out_parent_id :: "string option"
  out_order :: "int option"
  out_labels :: "string list"
  out_priority :: int
  out_due :: "TaskDue option"
  out_url :: string
  out_comment_count :: int
  out_is_completed :: bool
  out_creator_id :: "string option"
  out_assignee_id :: "string option"

definition task_from_todoist :: "Task \<Rightarrow> exn + TaskMCPOutput" where
  "task_from_todoist task =
     (case (case Task_due task of
              None \<Rightarrow> Inr None
            | Some d \<Rightarrow> (case TaskDue_of d of Inl e \<Rightarrow> Inl e | Inr td \<Rightarrow> Inr (Some td))) of
        Inl e \<Rightarrow> Inl e
      | Inr due \<Rightarrow>
          Inr \<lparr>out_id = Task_id task,
               out_content = Task_content task,
               out_description = (case Task_description task of None \<Rightarrow> [] | Some d \<Rightarrow> d),
               out_project_id = Task_project_id task,
               out_section_id = Task_section_id task,
               out_parent_id = Task_parent_id task,
               out_order = None,
               out_labels = (case Task_labels task of None \<Rightarrow> [] | Some ls \<Rightarrow> ls),
               out_priority = Task_priority task,
               out_due = due,
               out_url = Task_url task,
               out_comment_count = Task_comment_count task,
               out_is_completed = False,
               out_creator_id = Task_creator_id task,
               out_assignee_id = Task_assignee_id task\<rparr>)"

text \<open>The formatting loop of list-tasks converts the tasks in order; the first failure raises.\<close>

fun tasks_from_todoist :: "Task list \<Rightarrow> exn + TaskMCPOutput list" where
  "tasks_from_todoist [] = Inr []"
| "tasks_from_todoist (t # ts) =
     (case task_from_todoist t of
        Inl e \<Rightarrow> Inl e
      | Inr m \<Rightarrow> (case tasks_from_todoist ts of Inl e \<Rightarrow> Inl e | Inr ms \<Rightarrow> Inr (m # ms)))"

record ProjectMCPOutput =
  pout_id :: string
  pout_name :: string
  pout_color :: string
  pout_parent_id :: "string option"
  pout_order :: "int option"
  pout_comment_count :: int
  pout_is_shared :: bool
  pout_is_favorite :: bool
  pout_is_inbox_project :: bool
  pout_is_team_inbox :: bool
  pout_view_style :: string
  pout_url :: string

definition project_from_todoist :: "Project \<Rightarrow> ProjectMCPOutput" where
  "project_from_todoist project =
     \<lparr>pout_id = Project_id project,
      pout_name = Project_name project,
      pout_color = Project_color project,
      pout_parent_id = Project_parent_id project,
      pout_order = Project_order project,
      pout_comment_count = Project_comment_count project,
      pout_is_shared = Project_is_shared project,
      pout_is_favorite = Project_is_favorite project,
      pout_is_inbox_project = Project_is_inbox_project project,
      pout_is_team_inbox = Project_is_team_inbox project,
      pout_view_style = Project_view_style project,
      pout_url = Project_url project\<rparr>"

record LabelMCPOutput =
  lout_id :: string
  lout_name :: string
  lout_color :: string
  lout_order :: "int option"
  lout_is_favorite :: bool

definition label_from_todoist :: "Label \<Rightarrow> LabelMCPOutput" where
  "label_from_todoist label =
     \<lparr>lout_id = Label_id label,
      lout_name = Label_name label,
      lout_color = Label_color label,
      lout_order = Label_order label,
      lout_is_favorite = Label_is_favorite label\<rparr>"

text \<open>The validator of \<open>color\<close>, shared by \<open>ProjectMCPInput\<close> and \<open>LabelMCPInput\<close>.\<close>

definition validate_color :: "string option \<Rightarrow> exn + string option" where
  "validate_color v =
     (if truthy_str v \<and> the v \<notin> set TodoistColor
      then Inl (ValueError (''Color must be one of: '' @ concat (map (\<lambda>c. c @ '', '') (butlast TodoistColor))
                            @ last TodoistColor))
      else Inr v)"



record LabelMCPInput =
  lin_name :: string
  lin_color :: "string option"
  lin_favorite :: "bool option"

definition LabelMCPInput_of ::
  "string option \<Rightarrow> string option \<Rightarrow> bool option \<Rightarrow> exn + LabelMCPInput" where
  "LabelMCPInput_of name color favorite =
     (case name of
        None \<Rightarrow> Inl (ValueError ''name'')
      | Some n \<Rightarrow>
          (case validate_color color of
             Inl e \<Rightarrow> Inl e
           | Inr c \<Rightarrow> Inr \<lparr>lin_name = n, lin_color = c, lin_favorite = favorite\<rparr>))"

text \<open>
  \<open>TaskFilterMCPInput(**arguments)\<close>: every field is optional with default \<open>None\<close>;
  \<open>limit\<close> is declared \<open>Field(None, ge=1, le=100)\<close>.
\<close>

record TaskFilterMCPInput =
  f_project_id :: "string option"
  f_project_name :: "string option"
  f_section_id :: "string option"
  f_label_id :: "string option"
  f_label_name :: "string option"
  f_filter_string :: "string option"
  f_due_today :: "bool option"
  f_due_upcoming :: "bool option"
  f_completed :: "bool option"
  f_priority :: "int option"
  f_limit :: "int option"

definition TaskFilterMCPInput_of :: "TaskFilterMCPInput \<Rightarrow> exn + TaskFilterMCPInput" where
  "TaskFilterMCPInput_of arguments =
     (case f_limit arguments of
        None \<Rightarrow> Inr arguments
      | Some l \<Rightarrow> if 1 \<le> l \<and> l \<le> 100 then Inr arguments else Inl (ValueError ''limit''))"

text \<open>
  \<open>TaskMCPInput(**arguments)\<close>: \<open>content\<close> is required, \<open>priority\<close> is declared
  \<open>Field(None, ge=1, le=4)\<close>. The arguments of create-task are the same record with
  \<open>content\<close> optional.
\<close>

record TaskMCPInput =
  in_content :: "string option"
  in_description :: "string option"
  in_project_id :: "string option"
  in_project_name :: "string option"
  in_section_id :: "string option"
  in_parent_id :: "string option"
  in_order :: "int option"
  in_labels :: "string list option"
  in_priority :: "int option"
  in_due_string :: "string option"
  in_due_date :: "string option"
  in_due_datetime :: "string option"
  in_due_lang :: "string option"
  in_assignee_id :: "string option"

definition TaskMCPInput_of :: "TaskMCPInput \<Rightarrow> exn + TaskMCPInput" where
  "TaskMCPInput_of arguments =
     (if in_content arguments = None then Inl (ValueError ''content'')
      else case in_priority arguments of
             None \<Rightarrow> Inr arguments
           | Some p \<Rightarrow> if 1 \<le> p \<and> p \<le> 4 then Inr arguments else Inl (ValueError ''priority''))"

section \<open>Name lookup\<close>

text \<open>
  The loop that every handler uses to turn a name into an identifier:
  \<^verbatim>\<open>for project in projects:
    if project.name.lower() == project_name.lower():
        project_id = project.id
        break\<close>
  \<open>cur\<close> is the value of the assigned variable before the loop; the result is its
  value after the loop.
\<close>

fun name_loop ::
  "(string \<Rightarrow> string) \<Rightarrow> ('e \<Rightarrow> string) \<Rightarrow> ('e \<Rightarrow> string) \<Rightarrow> string \<Rightarrow> 'e list \<Rightarrow> string option \<Rightarrow> string option" where
  "name_loop lower name_of id_of n [] cur = cur"
| "name_loop lower name_of id_of n (e # es) cur =
     (if lower (name_of e) = lower n then Some (id_of e)
      else name_loop lower name_of id_of n es cur)"

section \<open>Entries of an argument dictionary\<close>

text \<open>
  Some handlers read the arguments as a plain dictionary and tell an absent key from a key
  that is present with the value \<open>None\<close> (JSON null). For those keys an entry is
  \<open>Absent\<close>, \<open>Null\<close> or \<open>Given v\<close>. \<open>entry_get\<close> is \<open>arguments.get(key)\<close>
  (and \<open>arguments.pop(key, None)\<close>, and the value a keyword parameter with default
  \<open>None\<close> receives from \<open>**arguments\<close>); \<open>entry_in\<close> is \<open>key in arguments\<close>.
\<close>

datatype 'a entry = Absent | Null | Given 'a

fun entry_get :: "'a entry \<Rightarrow> 'a option" where
  "entry_get Absent = None"
| "entry_get Null = None"
| "entry_get (Given v) = Some v"

text \<open>\<open>arguments.get(key, d)\<close>\<close>

fun entry_get_default :: "'a entry \<Rightarrow> 'a \<Rightarrow> 'a option" where
  "entry_get_default Absent d = Some d"
| "entry_get_default Null d = None"
| "entry_get_default (Given v) d = Some v"

fun entry_in :: "'a entry \<Rightarrow> bool" where
  "entry_in Absent = False"
| "entry_in Null = True"
| "entry_in (Given v) = True"

section \<open>Task handlers\<close>

text \<open>
  tools/tasks.py. A handler's result is the record (or records) it renders; the
  rendering into markdown text is not modelled. \<open>client\<close> is the SDK the client holds.
\<close>

definition list_tasks_body ::
  "(string \<Rightarrow> string) \<Rightarrow> 's sdk \<Rightarrow> TaskFilterMCPInput \<Rightarrow> ('s world, TaskMCPOutput list) coroutine" where
  "list_tasks_body lower client arguments =
     bind (lift (TaskFilterMCPInput_of arguments)) (\<lambda>filter_args.
     bind (if truthy_str (f_project_name filter_args) \<and> \<not> truthy_str (f_project_id filter_args)
           then bind (await (get_projects lower client)) (\<lambda>projects.
                  let pid = name_loop lower Project_name Project_id (the (f_project_name filter_args))
                              projects (f_project_id filter_args)
                  in if \<not> truthy_str pid
                     then raise (ValidationError
                                   (''Project not found: '' @ the (f_project_name filter_args)) None)
                     else return pid)
           else return (f_project_id filter_args)) (\<lambda>pid.
     bind (if truthy_str (f_label_name filter_args) \<and> \<not> truthy_str (f_label_id filter_args)
           then bind (await (get_labels lower client)) (\<lambda>labels.
                  let lid = name_loop lower Label_name Label_id (the (f_label_name filter_args))
                              labels (f_label_id filter_args)
                  in if \<not> truthy_str lid
                     then raise (ValidationError
                                   (''Label not found: '' @ the (f_label_name filter_args)) None)
                     else return lid)
           else return (f_label_id filter_args)) (\<lambda>lid.
     bind (await (get_tasks lower client pid (f_section_id filter_args) lid
                    (compose_filter (f_filter_string filter_args) (f_due_today filter_args)
                       (f_due_upcoming filter_args) (f_priority filter_args)))) (\<lambda>tasks.
     lift (tasks_from_todoist
             (if truthy_int (f_limit filter_args) \<and> int (length tasks) > the (f_limit filter_args)
              then take (nat (the (f_limit filter_args))) tasks
              else tasks))))))"

definition handle_list_tasks ::
  "(string \<Rightarrow> string) \<Rightarrow> 's sdk \<Rightarrow> TaskFilterMCPInput \<Rightarrow> exn + ('s world, TaskMCPOutput list) coroutine" where
  "handle_list_tasks lower client arguments =
     handle_exceptions lower ''handle_list_tasks''
       (async_def (\<lambda>(c, a). list_tasks_body lower c a)) (client, arguments)"

definition create_task_body :: "(string \<Rightarrow> string) \<Rightarrow> 's sdk \<Rightarrow> TaskMCPInput \<Rightarrow> ('s world, TaskMCPOutput) coroutine" where
  "create_task_body lower client arguments =
     bind (lift (TaskMCPInput_of arguments)) (\<lambda>task_input.
     bind (if truthy_str (in_project_name task_input) \<and> \<not> truthy_str (in_project_id task_input)
           then bind (await (get_projects lower client)) (\<lambda>projects.
                  let pid = name_loop lower Project_name Project_id (the (in_project_name task_input))
                              projects (in_project_id task_input)
                  in if \<not> truthy_str pid
                     then raise (ValidationError
                                   (''Project not found: '' @ the (in_project_name task_input)) None)
                     else return pid)
           else return (in_project_id task_input)) (\<lambda>pid.
     bind (await (create_task lower client (the (in_content task_input))
                    \<lparr>kw_description = in_description task_input,
                     kw_project_id = pid,
                     kw_section_id = in_section_id task_input,
                     kw_parent_id = in_parent_id task_input,
                     kw_order = None,
                     kw_labels = in_labels task_input,
                     kw_priority = in_priority task_input,
                     kw_due_string = in_due_string task_input,
                     kw_due_date = in_due_date task_input,
                     kw_due_datetime = in_due_datetime task_input,
                     kw_due_lang = None,
                     kw_assignee_id = None\<rparr>)) (\<lambda>task.
     lift (task_from_todoist task))))"

definition handle_create_task ::
  "(string \<Rightarrow> string) \<Rightarrow> 's sdk \<Rightarrow> TaskMCPInput \<Rightarrow> exn + ('s world, TaskMCPOutput) coroutine" where
  "handle_create_task lower client arguments =
     handle_exceptions lower ''handle_create_task''
       (async_def (\<lambda>(c, a). create_task_body lower c a)) (client, arguments)"

text \<open>
  The arguments of update-task, a plain dictionary in the source, with the keys of the
  tool's schema. \<open>pop("task_id")\<close> has no default, so an absent key raises
  \<open>KeyError\<close>. The lookup loop assigns \<open>arguments["project_id"]\<close> at the first
  match; after it the handler tests \<open>"project_id" in arguments\<close>: whether the key is
  there, not whether its value is empty or \<open>None\<close>. What is left of the dictionary goes
  to \<open>update_task\<close> as keyword arguments.
\<close>

record update_task_arguments =
  ut_task_id :: "string entry"
  ut_content :: "string entry"
  ut_description :: "string entry"
  ut_project_id :: "string entry"
  ut_project_name :: "string entry"
  ut_section_id :: "string entry"
  ut_parent_id :: "string entry"
  ut_labels :: "string list entry"
  ut_priority :: "int entry"
  ut_due_string :: "string entry"
  ut_due_date :: "string entry"
  ut_due_datetime :: "string entry"

definition update_task_body ::
  "(string \<Rightarrow> string) \<Rightarrow> 's sdk \<Rightarrow> update_task_arguments \<Rightarrow> ('s world, TaskMCPOutput) coroutine" where
  "update_task_body lower client arguments =
     (case ut_task_id arguments of
        Absent \<Rightarrow> raise (KeyError ''task_id'')
      | Null \<Rightarrow> raise (ValidationError ''Task ID is required'' None)
      | Given task_id \<Rightarrow>
          if task_id = [] then raise (ValidationError ''Task ID is required'' None)
          else
            bind (await (get_task lower client task_id)) (\<lambda>original_task.
            bind (if truthy_str (entry_get (ut_project_name arguments))
                     \<and> \<not> truthy_str (entry_get (ut_project_id arguments))
                  then bind (await (get_projects lower client)) (\<lambda>projects.
                         let project_id_entry =
                               (case name_loop lower Project_name Project_id
                                       (the (entry_get (ut_project_name arguments))) projects None of
                                  Some found \<Rightarrow> Given found
                                | None \<Rightarrow> ut_project_id arguments)
                         in if \<not> entry_in project_id_entry
                            then raise (ValidationError
                                          (''Project not found: ''
                                             @ the (entry_get (ut_project_name arguments))) None)
                            else return (entry_get project_id_entry))
                  else return (entry_get (ut_project_id arguments))) (\<lambda>pid.
            bind (await (update_task lower client task_id (entry_get (ut_content arguments))
                           \<lparr>kw_description = entry_get (ut_description arguments),
                            kw_project_id = pid,
                            kw_section_id = entry_get (ut_section_id arguments),
                            kw_parent_id = entry_get (ut_parent_id arguments),
                            kw_order = None,
                            kw_labels = entry_get (ut_labels arguments),
                            kw_priority = entry_get (ut_priority arguments),
                            kw_due_string = entry_get (ut_due_string arguments),
                            kw_due_date = entry_get (ut_due_date arguments),
                            kw_due_datetime = entry_get (ut_due_datetime arguments),
                            kw_due_lang = None,
                            kw_assignee_id = None\<rparr>)) (\<lambda>success.
            if \<not> success then raise (TodoistError ''Failed to update task'' None)
            else bind (await (get_task lower client task_id)) (\<lambda>updated_task.
                 lift (task_from_todoist updated_task))))))"

definition handle_update_task ::
  "(string \<Rightarrow> string) \<Rightarrow> 's sdk \<Rightarrow> update_task_arguments \<Rightarrow> exn + ('s world, TaskMCPOutput) coroutine" where
  "handle_update_task lower client arguments =
     handle_exceptions lower ''handle_update_task''
       (async_def (\<lambda>(c, a). update_task_body lower c a)) (client, arguments)"

text \<open>
  complete-task and delete-task read \<open>arguments.get("task_id")\<close>, the only key they
  use; the result is the task's content (or the placeholder) and its id.
\<close>

definition complete_task_body :: "(string \<Rightarrow> string) \<Rightarrow> 's sdk \<Rightarrow> string option \<Rightarrow> ('s world, string \<times> string) coroutine" where
  "complete_task_body lower client task_id =
     (if \<not> truthy_str task_id then raise (ValidationError ''Task ID is required'' None)
      else
        bind (try_except
                (bind (await (get_task lower client (the task_id))) (\<lambda>original_task.
                   return (Task_content original_task)))
                (\<lambda>e. return ''the task'')) (\<lambda>task_content.
        bind (await (close_task lower client (the task_id))) (\<lambda>success.
        if \<not> success then raise (TodoistError ''Failed to complete task'' None)
        else return (task_content, the task_id))))"

definition handle_complete_task ::
  "(string \<Rightarrow> string) \<Rightarrow> 's sdk \<Rightarrow> string option \<Rightarrow> exn + ('s world, string \<times> string) coroutine" where
  "handle_complete_task lower client task_id =
     handle_exceptions lower ''handle_complete_task''
       (async_def (\<lambda>(c, a). complete_task_body lower c a)) (client, task_id)"

definition delete_task_body :: "(string \<Rightarrow> string) \<Rightarrow> 's sdk \<Rightarrow> string option \<Rightarrow> ('s world, string \<times> string) coroutine" where
  "delete_task_body lower client task_id =
     (if \<not> truthy_str task_id then raise (ValidationError ''Task ID is required'' None)
      else
        bind (try_except
                (bind (await (get_task lower client (the task_id))) (\<lambda>original_task.
                   return (Task_content original_task)))
                (\<lambda>e. return ''the task'')) (\<lambda>task_content.
        bind (await (delete_task lower client (the task_id))) (\<lambda>success.
        if \<not> success then raise (TodoistError ''Failed to delete task'' None)
        else return (task_content, the task_id))))"

definition handle_delete_task ::
  "(string \<Rightarrow> string) \<Rightarrow> 's sdk \<Rightarrow> string option \<Rightarrow> exn + ('s world, string \<times> string) coroutine" where
  "handle_delete_task lower client task_id =
     handle_exceptions lower ''handle_delete_task''
       (async_def (\<lambda>(c, a). delete_task_body lower c a)) (client, task_id)"

section \<open>Project handlers\<close>

text \<open>
  tools/projects.py. list-projects reads only \<open>arguments.get("limit")\<close> and builds
  the dictionary \<open>project_map\<close> from project id to model, in insertion order; the tree
  it then prints is not modelled.
\<close>

fun dict_set :: "'k \<Rightarrow> 'v \<Rightarrow> ('k \<times> 'v) list \<Rightarrow> ('k \<times> 'v) list" where
  "dict_set k v [] = [(k, v)]"
| "dict_set k v ((k', v') # kvs) =
     (if k = k' then (k, v) # kvs else (k', v') # dict_set k v kvs)"

definition apply_limit :: "int option \<Rightarrow> 'a list \<Rightarrow> 'a list" where
  "apply_limit limit xs =
     (case limit of
        None \<Rightarrow> xs
      | Some l \<Rightarrow> if l > 0 then take (nat l) xs else xs)"

definition list_projects_body ::
  "(string \<Rightarrow> string) \<Rightarrow> 's sdk \<Rightarrow> int option \<Rightarrow> ('s world, (string \<times> ProjectMCPOutput) list) coroutine" where
  "list_projects_body lower client limit =
     bind (await (get_projects lower client)) (\<lambda>projects.
     return (foldl (\<lambda>project_map project.
                      dict_set (Project_id project) (project_from_todoist project) project_map)
               [] (apply_limit limit projects)))"

definition handle_list_projects ::
  "(string \<Rightarrow> string) \<Rightarrow> 's sdk \<Rightarrow> int option \<Rightarrow> exn + ('s world, (string \<times> ProjectMCPOutput) list) coroutine" where
  "handle_list_projects lower client limit =
     handle_exceptions lower ''handle_list_projects''
       (async_def (\<lambda>(c, a). list_projects_body lower c a)) (client, limit)"










section \<open>Label handlers\<close>

text \<open>
  tools/labels.py. list-labels reads only \<open>arguments.get("limit")\<close>; after the cut it
  sorts the labels by \<open>order\<close> (a missing or zero order counts as 999; Python's sort
  is stable, as \<open>sort_key\<close> is).
\<close>

definition label_sort_key :: "Label \<Rightarrow> int" where
  "label_sort_key l =
     (case Label_order l of None \<Rightarrow> 999 | Some v \<Rightarrow> if v = 0 then 999 else v)"

definition list_labels_body :: "(string \<Rightarrow> string) \<Rightarrow> 's sdk \<Rightarrow> int option \<Rightarrow> ('s world, LabelMCPOutput list) coroutine" where
  "list_labels_body lower client limit =
     bind (await (get_labels lower client)) (\<lambda>labels.
     return (map label_from_todoist (sort_key label_sort_key (apply_limit limit labels))))"

definition handle_list_labels ::
  "(string \<Rightarrow> string) \<Rightarrow> 's sdk \<Rightarrow> int option \<Rightarrow> exn + ('s world, LabelMCPOutput list) coroutine" where
  "handle_list_labels lower client limit =
     handle_exceptions lower ''handle_list_labels''
       (async_def (\<lambda>(c, a). list_labels_body lower c a)) (client, limit)"

record create_label_arguments =
  cl_name :: "string entry"
  cl_color :: "string option"
  cl_favorite :: "bool entry"

definition create_label_body ::
  "(string \<Rightarrow> string) \<Rightarrow> 's sdk \<Rightarrow> create_label_arguments \<Rightarrow> ('s world, LabelMCPOutput) coroutine" where
  "create_label_body lower client arguments =
     (if \<not> entry_in (cl_name arguments) then raise (KeyError ''name'')
      else
          bind (lift (LabelMCPInput_of (entry_get (cl_name arguments)) (cl_color arguments)
                        (entry_get_default (cl_favorite arguments) False))) (\<lambda>label_input.
          bind (await (create_label lower client (lin_name label_input) (lin_color label_input)
                         (lin_favorite label_input))) (\<lambda>label.
          return (label_from_todoist label))))"

definition handle_create_label ::
  "(string \<Rightarrow> string) \<Rightarrow> 's sdk \<Rightarrow> create_label_arguments \<Rightarrow> exn + ('s world, LabelMCPOutput) coroutine" where
  "handle_create_label lower client arguments =
     handle_exceptions lower ''handle_create_label''
       (async_def (\<lambda>(c, a). create_label_body lower c a)) (client, arguments)"

record update_label_arguments =
  ul_label_id :: "string option"
  ul_label_name :: "string option"
  ul_name :: "string option"
  ul_color :: "string option"
  ul_favorite :: "bool option"

definition update_label_body ::
  "(string \<Rightarrow> string) \<Rightarrow> 's sdk \<Rightarrow> update_label_arguments \<Rightarrow> ('s world, LabelMCPOutput) coroutine" where
  "update_label_body lower client arguments =
     (if \<not> truthy_str (ul_label_id arguments) \<and> \<not> truthy_str (ul_label_name arguments)
      then raise (ValidationError ''Either label_id or label_name is required'' None)
      else
        bind (if \<not> truthy_str (ul_label_id arguments) \<and> truthy_str (ul_label_name arguments)
              then bind (await (get_labels lower client)) (\<lambda>labels.
                     let lid = name_loop lower Label_name Label_id (the (ul_label_name arguments))
                                 labels (ul_label_id arguments)
                     in if \<not> truthy_str lid
                        then raise (ValidationError
                                      (''Label not found: '' @ the (ul_label_name arguments)) None)
                        else return lid)
              else return (ul_label_id arguments)) (\<lambda>lid.
        bind (await (get_label lower client (the lid))) (\<lambda>original_label.
        bind (await (update_label lower client (the lid) (ul_name arguments) (ul_color arguments)
                       (ul_favorite arguments))) (\<lambda>success.
        if \<not> success then raise (TodoistError ''Failed to update label'' None)
        else
          bind (await (get_label lower client (the lid))) (\<lambda>updated_label.
          return (label_from_todoist updated_label))))))"

definition handle_update_label ::
  "(string \<Rightarrow> string) \<Rightarrow> 's sdk \<Rightarrow> update_label_arguments \<Rightarrow> exn + ('s world, LabelMCPOutput) coroutine" where
  "handle_update_label lower client arguments =
     handle_exceptions lower ''handle_update_label''
       (async_def (\<lambda>(c, a). update_label_body lower c a)) (client, arguments)"

definition delete_label_body ::
  "(string \<Rightarrow> string) \<Rightarrow> 's sdk \<Rightarrow> string option \<times> string option \<Rightarrow> ('s world, string \<times> string) coroutine" where
  "delete_label_body lower client arguments =
     (case arguments of (label_id_arg, label_name_arg) \<Rightarrow>
        if \<not> truthy_str label_id_arg \<and> \<not> truthy_str label_name_arg
        then raise (ValidationError ''Either label_id or label_name is required'' None)
        else
          bind (if \<not> truthy_str label_id_arg \<and> truthy_str label_name_arg
                then bind (await (get_labels lower client)) (\<lambda>labels.
                       let lid = name_loop lower Label_name Label_id (the label_name_arg)
                                   labels label_id_arg
                       in if \<not> truthy_str lid
                          then raise (ValidationError
                                        (''Label not found: '' @ the label_name_arg) None)
                          else return lid)
                else return label_id_arg) (\<lambda>lid.
          bind (try_except
                  (bind (await (get_label lower client (the lid))) (\<lambda>original_label.
                     return (Label_name original_label)))
                  (\<lambda>e. return (if truthy_str label_name_arg then the label_name_arg
                                 else ''the label''))) (\<lambda>shown_name.
          bind (await (delete_label lower client (the lid))) (\<lambda>success.
          if \<not> success then raise (TodoistError ''Failed to delete label'' None)
          else return (shown_name, the lid)))))"

definition handle_delete_label ::
  "(string \<Rightarrow> string) \<Rightarrow> 's sdk \<Rightarrow> string option \<times> string option \<Rightarrow> exn + ('s world, string \<times> string) coroutine" where
  "handle_delete_label lower client arguments =
     handle_exceptions lower ''handle_delete_label''
       (async_def (\<lambda>(c, a). delete_label_body lower c a)) (client, arguments)"

section \<open>Observing the facade\<close>

text \<open>
  For an SDK call \<open>c\<close>: the text of the exception that the SDK raises for it in a
  state, if it raises; the client method that issues \<open>c\<close> with the prefix of its
  failure message; and what that client method raises in a world, if it raises.
\<close>

definition raised_text :: "(string + 'a) \<times> 's \<Rightarrow> string option" where
  "raised_text r = (case fst r of Inl msg \<Rightarrow> Some msg | Inr v \<Rightarrow> None)"

definition raised_exn :: "(exn + 'a) \<times> 'w \<Rightarrow> exn option" where
  "raised_exn r = (case fst r of Inl e \<Rightarrow> Some e | Inr v \<Rightarrow> None)"

fun sdk_raises :: "'s sdk \<Rightarrow> call \<Rightarrow> 's \<Rightarrow> string option" where
  "sdk_raises api (GetTasks p s l f) st = raised_text (sdk_get_tasks api p s l f st)"
| "sdk_raises api (GetTask t) st = raised_text (sdk_get_task api t st)"
| "sdk_raises api (AddTask c k) st = raised_text (sdk_add_task api c k st)"
| "sdk_raises api (UpdateTask t c k) st = raised_text (sdk_update_task api t c k st)"
| "sdk_raises api (CloseTask t) st = raised_text (sdk_close_task api t st)"
| "sdk_raises api (ReopenTask t) st = raised_text (sdk_reopen_task api t st)"
| "sdk_raises api (DeleteTask t) st = raised_text (sdk_delete_task api t st)"
| "sdk_raises api GetProjects st = raised_text (sdk_get_projects api st)"
| "sdk_raises api (GetProject p) st = raised_text (sdk_get_project api p st)"
| "sdk_raises api (AddProject n p c f) st = raised_text (sdk_add_project api n p c f st)"
| "sdk_raises api (UpdateProject p n c f) st = raised_text (sdk_update_project api p n c f st)"
| "sdk_raises api (DeleteProject p) st = raised_text (sdk_delete_project api p st)"
| "sdk_raises api GetLabels st = raised_text (sdk_get_labels api st)"
| "sdk_raises api (GetLabel l) st = raised_text (sdk_get_label api l st)"
| "sdk_raises api (AddLabel n c f) st = raised_text (sdk_add_label api n c f st)"
| "sdk_raises api (UpdateLabel l n c f) st = raised_text (sdk_update_label api l n c f st)"
| "sdk_raises api (DeleteLabel l) st = raised_text (sdk_delete_label api l st)"

fun facade_raises :: "(string \<Rightarrow> string) \<Rightarrow> 's sdk \<Rightarrow> call \<Rightarrow> 's world \<Rightarrow> exn option" where
  "facade_raises lower api (GetTasks p s l f) w = raised_exn (await (get_tasks lower api p s l f) w)"
| "facade_raises lower api (GetTask t) w = raised_exn (await (get_task lower api t) w)"
| "facade_raises lower api (AddTask c k) w = raised_exn (await (create_task lower api c k) w)"
| "facade_raises lower api (UpdateTask t c k) w = raised_exn (await (update_task lower api t c k) w)"
| "facade_raises lower api (CloseTask t) w = raised_exn (await (close_task lower api t) w)"
| "facade_raises lower api (ReopenTask t) w = raised_exn (await (reopen_task lower api t) w)"
| "facade_raises lower api (DeleteTask t) w = raised_exn (await (delete_task lower api t) w)"
| "facade_raises lower api GetProjects w = raised_exn (await (get_projects lower api) w)"
| "facade_raises lower api (GetProject p) w = raised_exn (await (get_project lower api p) w)"
| "facade_raises lower api (AddProject n p c f) w = raised_exn (await (create_project lower api n p c f) w)"
| "facade_raises lower api (UpdateProject p n c f) w = raised_exn (await (update_project lower api p n c f) w)"
| "facade_raises lower api (DeleteProject p) w = raised_exn (await (delete_project lower api p) w)"
| "facade_raises lower api GetLabels w = raised_exn (await (get_labels lower api) w)"
| "facade_raises lower api (GetLabel l) w = raised_exn (await (get_label lower api l) w)"
| "facade_raises lower api (AddLabel n c f) w = raised_exn (await (create_label lower api n c f) w)"
| "facade_raises lower api (UpdateLabel l n c f) w = raised_exn (await (update_label lower api l n c f) w)"
| "facade_raises lower api (DeleteLabel l) w = raised_exn (await (delete_label lower api l) w)"

fun failed_to :: "call \<Rightarrow> string" where
  "failed_to (GetTasks p s l f) = ''Failed to get tasks: ''"
| "failed_to (GetTask t) = ''Failed to get task: ''"
| "failed_to (AddTask c k) = ''Failed to create task: ''"
| "failed_to (UpdateTask t c k) = ''Failed to update task: ''"
| "failed_to (CloseTask t) = ''Failed to close task: ''"
| "failed_to (ReopenTask t) = ''Failed to reopen task: ''"
| "failed_to (DeleteTask t) = ''Failed to delete task: ''"
| "failed_to GetProjects = ''Failed to get projects: ''"
| "failed_to (GetProject p) = ''Failed to get project: ''"
| "failed_to (AddProject n p c f) = ''Failed to create project: ''"
| "failed_to (UpdateProject p n c f) = ''Failed to update project: ''"
| "failed_to (DeleteProject p) = ''Failed to delete project: ''"
| "failed_to GetLabels = ''Failed to get labels: ''"
| "failed_to (GetLabel l) = ''Failed to get label: ''"
| "failed_to (AddLabel n c f) = ''Failed to create label: ''"
| "failed_to (UpdateLabel l n c f) = ''Failed to update label: ''"
| "failed_to (DeleteLabel l) = ''Failed to delete label: ''"

section \<open>A stand-in for the remote service\<close>

text \<open>
  A small remote service for running the handlers on concrete inputs. Its state counts
  the requests served. It holds 101 open tasks, three projects (two of them named
  "Home" up to case) and two labels; task "404" does not exist; a created task is
  answered with an echo of the request, while reading a task gives the stored one.
  \<open>unauthorized_sdk\<close> rejects the credential on every request.
\<close>

text \<open>
  For concrete runs the parameter \<open>lower\<close> is given the value \<open>ascii_lower\<close>, which
  maps the letters A to Z to a to z and leaves every other character alone. On a string
  of ASCII characters this is what \<open>str.lower\<close> returns.
\<close>

definition lower_char :: "char \<Rightarrow> char" where
  "lower_char c =
     (case map_of (zip ''ABCDEFGHIJKLMNOPQRSTUVWXYZ'' ''abcdefghijklmnopqrstuvwxyz'') c of
        Some l \<Rightarrow> l
      | None \<Rightarrow> c)"

definition ascii_lower :: "string \<Rightarrow> string" where
  "ascii_lower s = map lower_char s"

definition stub_task :: "string \<Rightarrow> string \<Rightarrow> Task" where
  "stub_task tid content =
     \<lparr>Task_id = tid, Task_content = content, Task_description = None,
      Task_project_id = Some ''7'', Task_section_id = None, Task_parent_id = None,
      Task_labels = None, Task_priority = 1, Task_due = None,
      Task_url = ''https://todoist.com/app/task/'' @ tid, Task_comment_count = 0,
      Task_creator_id = None, Task_assignee_id = None\<rparr>"

definition stub_project :: "string \<Rightarrow> string \<Rightarrow> Project" where
  "stub_project pid name =
     \<lparr>Project_id = pid, Project_name = name, Project_color = ''grey'',
      Project_parent_id = None, Project_order = None, Project_comment_count = 0,
      Project_is_shared = False, Project_is_favorite = False,
      Project_is_inbox_project = False, Project_is_team_inbox = False,
      Project_view_style = ''list'', Project_url = ''https://todoist.com/app/project/'' @ pid\<rparr>"

definition stub_label :: "string \<Rightarrow> string \<Rightarrow> bool option \<Rightarrow> Label" where
  "stub_label lid name favorite =
     \<lparr>Label_id = lid, Label_name = name, Label_color = ''charcoal'',
      Label_order = None,
      Label_is_favorite = (case favorite of None \<Rightarrow> False | Some b \<Rightarrow> b)\<rparr>"

definition stub_sdk :: "nat sdk" where
  "stub_sdk =
     \<lparr>sdk_get_tasks = (\<lambda>p s l f n. (Inr (replicate 101 (stub_task ''1'' ''Read mail'')), Suc n)),
      sdk_get_task = (\<lambda>t n. if t = ''404'' then (Inl ''404 Client Error: Not Found'', Suc n)
                              else (Inr (stub_task t ''Buy oat milk''), Suc n)),
      sdk_add_task = (\<lambda>c k n. (Inr (stub_task ''100'' c), Suc n)),
      sdk_update_task = (\<lambda>t c k n. (Inr True, Suc n)),
      sdk_close_task = (\<lambda>t n. (Inr True, Suc n)),
      sdk_reopen_task = (\<lambda>t n. (Inr True, Suc n)),
      sdk_delete_task = (\<lambda>t n. (Inr True, Suc n)),
      sdk_get_projects = (\<lambda>n. (Inr [stub_project ''1'' ''Inbox'', stub_project ''7'' ''Home'',
                                       stub_project ''9'' ''HOME''], Suc n)),
      sdk_get_project = (\<lambda>p n. (Inr (stub_project p ''Home''), Suc n)),
      sdk_add_project = (\<lambda>nm p c f n. (Inr (stub_project ''50'' nm), Suc n)),
      sdk_update_project = (\<lambda>p nm c f n. (Inr True, Suc n)),
      sdk_delete_project = (\<lambda>p n. (Inr True, Suc n)),
      sdk_get_labels = (\<lambda>n. (Inr [stub_label ''L1'' ''urgent'' None,
                                     stub_label ''L2'' ''Errands'' None], Suc n)),
      sdk_get_label = (\<lambda>l n. (Inr (stub_label l ''urgent'' None), Suc n)),
      sdk_add_label = (\<lambda>nm c f n. (Inr (stub_label ''L3'' nm f), Suc n)),
      sdk_update_label = (\<lambda>l nm c f n. (Inr True, Suc n)),
      sdk_delete_label = (\<lambda>l n. (Inr True, Suc n))\<rparr>"

definition unauthorized :: "(nat, 'a) remote_fn" where
  "unauthorized n = (Inl ''401 Client Error: Unauthorized for url'', Suc n)"

definition unauthorized_sdk :: "nat sdk" where
  "unauthorized_sdk =
     \<lparr>sdk_get_tasks = (\<lambda>p s l f. unauthorized),
      sdk_get_task = (\<lambda>t. unauthorized),
      sdk_add_task = (\<lambda>c k. unauthorized),
      sdk_update_task = (\<lambda>t c k. unauthorized),
      sdk_close_task = (\<lambda>t. unauthorized),
      sdk_reopen_task = (\<lambda>t. unauthorized),
      sdk_delete_task = (\<lambda>t. unauthorized),
      sdk_get_projects = unauthorized,
      sdk_get_project = (\<lambda>p. unauthorized),
      sdk_add_project = (\<lambda>nm p c f. unauthorized),
      sdk_update_project = (\<lambda>p nm c f. unauthorized),
      sdk_delete_project = (\<lambda>p. unauthorized),
      sdk_get_labels = unauthorized,
      sdk_get_label = (\<lambda>l. unauthorized),
      sdk_add_label = (\<lambda>nm c f. unauthorized),
      sdk_update_label = (\<lambda>l nm c f. unauthorized),
      sdk_delete_label = (\<lambda>l. unauthorized)\<rparr>"

definition world0 :: "nat world" where
  "world0 = \<lparr>remote = 0, calls = []\<rparr>"

text \<open>Arguments with no key at all, for each tool that takes a dictionary.\<close>

definition no_filter :: TaskFilterMCPInput where
  "no_filter =
     \<lparr>f_project_id = None, f_project_name = None, f_section_id = None, f_label_id = None,
      f_label_name = None, f_filter_string = None, f_due_today = None, f_due_upcoming = None,
      f_completed = None, f_priority = None, f_limit = None\<rparr>"

definition no_task_input :: TaskMCPInput where
  "no_task_input =
     \<lparr>in_content = None, in_description = None, in_project_id = None, in_project_name = None,
      in_section_id = None, in_parent_id = None, in_order = None, in_labels = None,
      in_priority = None, in_due_string = None, in_due_date = None, in_due_datetime = None,
      in_due_lang = None, in_assignee_id = None\<rparr>"

definition no_update :: update_task_arguments where
  "no_update =
     \<lparr>ut_task_id = Absent, ut_content = Absent, ut_description = Absent,
      ut_project_id = Absent, ut_project_name = Absent, ut_section_id = Absent,
      ut_parent_id = Absent, ut_labels = Absent, ut_priority = Absent,
      ut_due_string = Absent, ut_due_date = Absent, ut_due_datetime = Absent\<rparr>"

definition no_kwargs :: task_kwargs where
  "no_kwargs =
     \<lparr>kw_description = None, kw_project_id = None, kw_section_id = None, kw_parent_id = None,
      kw_order = None, kw_labels = None, kw_priority = None, kw_due_string = None,
      kw_due_date = None, kw_due_datetime = None, kw_due_lang = None, kw_assignee_id = None\<rparr>"

text \<open>The model that \<open>TaskMCPOutput.from_todoist\<close> builds from \<open>stub_task\<close>.\<close>

definition stub_output :: "string \<Rightarrow> string \<Rightarrow> TaskMCPOutput" where
  "stub_output tid content =
     \<lparr>out_id = tid, out_content = content, out_description = [],
      out_project_id = Some ''7'', out_section_id = None, out_parent_id = None,
      out_order = None, out_labels = [], out_priority = 1, out_due = None,
      out_url = ''https://todoist.com/app/task/'' @ tid, out_comment_count = 0,
      out_is_completed = False, out_creator_id = None, out_assignee_id = None\<rparr>"

section \<open>Call traces\<close>

text \<open>
  \<open>issues_only P m\<close>: from any world, running \<open>m\<close> appends SDK calls to the trace and
  every call it appends satisfies \<open>P\<close>. It is used to state what a handler may send to
  the remote service.
\<close>

definition issues_only :: "(call \<Rightarrow> bool) \<Rightarrow> ('s world, 'a) coroutine \<Rightarrow> bool" where
  "issues_only P m = (\<forall>w. \<exists>cs. calls (snd (m w)) = calls w @ cs \<and> list_all P cs)"


section \<open>Basic facts\<close>

lemma await_decorated: "await (handle_exceptions lower n (async_def body) args) = body args"
  by (rule ext) (simp add: await_def handle_exceptions_def async_def_def)

lemmas facade_defs =
  get_tasks_def get_task_def create_task_def update_task_def close_task_def reopen_task_def
  delete_task_def get_projects_def get_project_def create_project_def update_project_def
  delete_project_def get_labels_def get_label_def create_label_def update_label_def
  delete_label_def

lemmas truthy_defs = truthy_str_def truthy_bool_def truthy_int_def

lemma bind_return: "bind (return v) f = f v"
  by (rule ext) (simp add: bind_def return_def)

lemma bind_raise: "bind (raise e) f = raise e"
  by (rule ext) (simp add: bind_def raise_def)

lemma bind_lift_Inr: "bind (lift (Inr v)) f = f v"
  by (rule ext) (simp add: bind_def lift_def)

lemma bind_lift_Inl: "bind (lift (Inl e)) f = raise e"
  by (rule ext) (simp add: bind_def lift_def raise_def)

lemmas bind_simps = bind_return bind_raise bind_lift_Inr bind_lift_Inl

lemma issues_only_return: "issues_only P (return v)"
  by (simp add: issues_only_def return_def)

lemma issues_only_raise: "issues_only P (raise e)"
  by (simp add: issues_only_def raise_def)

lemma issues_only_lift: "issues_only P (lift r)"
  by (simp add: issues_only_def lift_def)

lemma issues_only_remote_call: "P c \<Longrightarrow> issues_only P (remote_call c p fn)"
  by (auto simp: issues_only_def remote_call_def split: prod.splits sum.splits)

lemma issues_only_bind:
  assumes "issues_only P m" and "\<And>v. issues_only P (f v)"
  shows "issues_only P (bind m f)"
  unfolding issues_only_def
proof
  fix w
  from assms(1) obtain cs where cs: "calls (snd (m w)) = calls w @ cs" "list_all P cs"
    unfolding issues_only_def by blast
  show "\<exists>cs. calls (snd (bind m f w)) = calls w @ cs \<and> list_all P cs"
  proof (cases "m w")
    case (Pair r w1)
    show ?thesis
    proof (cases r)
      case (Inl e)
      with Pair cs show ?thesis by (auto simp: bind_def)
    next
      case (Inr v)
      from assms(2)[of v] obtain ds
        where ds: "calls (snd (f v w1)) = calls w1 @ ds" "list_all P ds"
        unfolding issues_only_def by blast
      with Pair Inr cs show ?thesis by (auto simp: bind_def)
    qed
  qed
qed

lemma issues_only_try_except:
  assumes "issues_only P m" and "\<And>e. issues_only P (h e)"
  shows "issues_only P (try_except m h)"
  unfolding issues_only_def
proof
  fix w
  from assms(1) obtain cs where cs: "calls (snd (m w)) = calls w @ cs" "list_all P cs"
    unfolding issues_only_def by blast
  show "\<exists>cs. calls (snd (try_except m h w)) = calls w @ cs \<and> list_all P cs"
  proof (cases "m w")
    case (Pair r w1)
    show ?thesis
    proof (cases r)
      case (Inr v)
      with Pair cs show ?thesis by (auto simp: try_except_def)
    next
      case (Inl e)
      from assms(2)[of e] obtain ds
        where ds: "calls (snd (h e w1)) = calls w1 @ ds" "list_all P ds"
        unfolding issues_only_def by blast
      with Pair Inl cs show ?thesis by (auto simp: try_except_def)
    qed
  qed
qed

lemma issues_only_if:
  "(b \<Longrightarrow> issues_only P x) \<Longrightarrow> (\<not> b \<Longrightarrow> issues_only P y) \<Longrightarrow> issues_only P (if b then x else y)"
  by simp

lemmas issues_only_intros =
  issues_only_return issues_only_raise issues_only_lift issues_only_bind issues_only_try_except
  issues_only_if issues_only_remote_call

lemma issues_onlyD:
  "issues_only P m \<Longrightarrow> \<exists>cs. calls (snd (m w)) = calls w @ cs \<and> (\<forall>c \<in> set cs. P c)"
  by (auto simp: issues_only_def list_all_iff)


section \<open>Filter composition\<close>

lemma compose_today_upcoming_p3:
  "compose_filter None (Some True) (Some True) (Some 3)
     = Some ''((today) & (today | overdue | 7 days)) & p3''"
  by (simp add: compose_filter_def and_clause_def truthy_defs str_int_def str_nat.simps
        digit_char_def)

lemma compose_nothing: "compose_filter None (Some False) (Some False) None = None"
  by (simp add: compose_filter_def truthy_defs)

lemma compose_stepwise:
  "compose_filter f dt du p
     = compose_filter (compose_filter (compose_filter f dt None None) None du None) None None p"
  by (simp add: compose_filter_def truthy_defs Let_def)

lemma compose_with_base:
  "compose_filter (Some ''@work'') (Some True) (Some True) (Some 3)
     = Some ''(((@work) & today) & (today | overdue | 7 days)) & p3''"
  by (simp add: compose_filter_def and_clause_def truthy_defs str_int_def str_nat.simps
        digit_char_def)

lemma list_tasks_plain_call:
  assumes "f_project_name a = None" and "f_label_name a = None" and "f_limit a = None"
  shows "calls (snd (await (handle_list_tasks lower api a) w))
           = calls w @ [GetTasks (f_project_id a) (f_section_id a) (f_label_id a)
                          (compose_filter (f_filter_string a) (f_due_today a) (f_due_upcoming a)
                             (f_priority a))]"
  using assms
  by (simp add: handle_list_tasks_def await_decorated list_tasks_body_def
        TaskFilterMCPInput_of_def bind_simps truthy_defs facade_defs)
     (simp add: bind_def remote_call_def lift_def split: prod.splits sum.splits)

text \<open>
  C1, as the code has it. With no base filter, due-today, due-upcoming and priority 3
  the filter sent to the remote list call is
  \<open>((today) & (today | overdue | 7 days)) & p3\<close>: the accumulator is put in parentheses
  before each clause is appended, and the final result is not wrapped again. With no base
  filter, both flags false and no priority the filter is \<open>None\<close>. Composing is the same
  as applying the due-today clause to the base string, then the due-upcoming clause to the
  result, then the priority clause; a base string ends up innermost. The composed string
  is the \<open>filter\<close> argument of the one \<open>get_tasks\<close> call.
\<close>

theorem compose_filter_order:
  "compose_filter None (Some True) (Some True) (Some 3)
     = Some ''((today) & (today | overdue | 7 days)) & p3''
   \<and> compose_filter None (Some False) (Some False) None = None
   \<and> compose_filter f dt du p
       = compose_filter (compose_filter (compose_filter f dt None None) None du None) None None p
   \<and> compose_filter (Some ''@work'') (Some True) (Some True) (Some 3)
       = Some ''(((@work) & today) & (today | overdue | 7 days)) & p3''
   \<and> calls (snd (await (handle_list_tasks lower api
                (no_filter\<lparr>f_due_today := Some True, f_due_upcoming := Some True,
                            f_priority := Some 3\<rparr>)) w))
       = calls w @ [GetTasks None None None (Some ''((today) & (today | overdue | 7 days)) & p3'')]
   \<and> calls (snd (await (handle_list_tasks lower api
                (no_filter\<lparr>f_due_today := Some False, f_due_upcoming := Some False\<rparr>)) w))
       = calls w @ [GetTasks None None None None]"
proof -
  have a: "calls (snd (await (handle_list_tasks lower api
                (no_filter\<lparr>f_due_today := Some True, f_due_upcoming := Some True,
                            f_priority := Some 3\<rparr>)) w))
       = calls w @ [GetTasks None None None (Some ''((today) & (today | overdue | 7 days)) & p3'')]"
    by (simp add: list_tasks_plain_call no_filter_def compose_today_upcoming_p3)
  have b: "calls (snd (await (handle_list_tasks lower api
                (no_filter\<lparr>f_due_today := Some False, f_due_upcoming := Some False\<rparr>)) w))
       = calls w @ [GetTasks None None None None]"
    by (simp add: list_tasks_plain_call no_filter_def compose_nothing)
  from a b compose_today_upcoming_p3 compose_nothing compose_stepwise [of f dt du p]
    compose_with_base
  show ?thesis by blast
qed

text \<open>
  The string the claim gives, with one more pair of parentheses around the whole, is not
  what the code composes.
\<close>

theorem compose_filter_literal_counterexample:
  "compose_filter None (Some True) (Some True) (Some 3)
     \<noteq> Some ''(((today) & (today | overdue | 7 days)) & p3)''"
  by (simp add: compose_filter_def and_clause_def truthy_defs str_int_def str_nat.simps
        digit_char_def)

section \<open>Failures of the client facade\<close>

lemma remote_call_raises:
  "raised_text (fn (remote w)) = Some msg \<Longrightarrow>
   raised_exn (remote_call c p fn w) = Some (facade_failure p msg)"
  by (auto simp: raised_text_def raised_exn_def remote_call_def split: prod.splits sum.splits)

lemma facade_raises_failure:
  assumes "sdk_raises api c (remote w) = Some msg"
  shows "facade_raises lower api c w = Some (facade_failure (failed_to c) msg)"
  using assms
  by (cases c) (simp_all add: facade_defs await_decorated remote_call_raises)

text \<open>
  C6. Whatever the operation \<open>c\<close> of the client facade: when the SDK raises an exception
  with text \<open>msg\<close>, the client method raises \<open>AuthenticationError\<close>, and not
  \<open>TodoistError\<close> (the spec's ServiceError), if \<open>msg\<close> contains "Unauthorized";
  otherwise it raises \<open>TodoistError\<close> whose message is the method's prefix followed by
  \<open>msg\<close> unchanged.
\<close>

theorem facade_surfaces_failures:
  assumes "sdk_raises api c (remote w) = Some msg"
  shows "(contains ''Unauthorized'' msg \<longrightarrow>
            facade_raises lower api c w
              = Some (AuthenticationError ''Invalid or expired Todoist API token'' None)
            \<and> (\<forall>m d. facade_raises lower api c w \<noteq> Some (TodoistError m d)))
       \<and> (\<not> contains ''Unauthorized'' msg \<longrightarrow>
            facade_raises lower api c w = Some (TodoistError (failed_to c @ msg) None))"
  using facade_raises_failure [OF assms] by (simp add: facade_failure_def)

theorem facade_surfaces_failures_witness:
  "sdk_raises unauthorized_sdk GetLabels (remote world0)
     = Some ''401 Client Error: Unauthorized for url''
   \<and> contains ''Unauthorized'' ''401 Client Error: Unauthorized for url''
   \<and> facade_raises ascii_lower unauthorized_sdk GetLabels world0
       = Some (AuthenticationError ''Invalid or expired Todoist API token'' None)
   \<and> sdk_raises stub_sdk (GetTask ''404'') (remote world0) = Some ''404 Client Error: Not Found''
   \<and> \<not> contains ''Unauthorized'' ''404 Client Error: Not Found''
   \<and> facade_raises ascii_lower stub_sdk (GetTask ''404'') world0
       = Some (TodoistError ''Failed to get task: 404 Client Error: Not Found'' None)"
proof -
  have h1: "sdk_raises unauthorized_sdk GetLabels (remote world0)
     = Some ''401 Client Error: Unauthorized for url''"
    by (simp add: unauthorized_sdk_def unauthorized_def raised_text_def)
  have c1: "contains ''Unauthorized'' ''401 Client Error: Unauthorized for url''"
    by (simp add: startswith_def)
  have h2: "sdk_raises stub_sdk (GetTask ''404'') (remote world0)
     = Some ''404 Client Error: Not Found''"
    by (simp add: stub_sdk_def raised_text_def)
  have c2: "\<not> contains ''Unauthorized'' ''404 Client Error: Not Found''"
    by (simp add: startswith_def)
  have r1: "facade_raises ascii_lower unauthorized_sdk GetLabels world0
       = Some (AuthenticationError ''Invalid or expired Todoist API token'' None)"
    using facade_surfaces_failures [OF h1] c1 by blast
  have r2: "facade_raises ascii_lower stub_sdk (GetTask ''404'') world0
       = Some (TodoistError (failed_to (GetTask ''404'') @ ''404 Client Error: Not Found'') None)"
    using facade_surfaces_failures [OF h2] c2 by blast
  from r2 have r2': "facade_raises ascii_lower stub_sdk (GetTask ''404'') world0
       = Some (TodoistError ''Failed to get task: 404 Client Error: Not Found'' None)"
    by simp
  from h1 c1 r1 h2 c2 r2' show ?thesis by blast
qed

section \<open>Facts about running coroutines\<close>

lemma bind_eq_Inr:
  "bind m f w = (Inr r, w') \<longleftrightarrow> (\<exists>v w1. m w = (Inr v, w1) \<and> f v w1 = (Inr r, w'))"
  by (auto simp: bind_def split: prod.splits sum.splits)

lemma remote_call_eq_Inr:
  "remote_call c p fn w = (Inr v, w') \<longleftrightarrow>
     (\<exists>s'. fn (remote w) = (Inr v, s') \<and> w' = \<lparr>remote = s', calls = calls w @ [c]\<rparr>)"
  by (auto simp: remote_call_def split: prod.splits sum.splits)

lemma lift_eq_Inr: "lift x w = (Inr r, w') \<longleftrightarrow> x = Inr r \<and> w' = w"
  by (auto simp: lift_def)

lemma return_eq_Inr: "return v w = (Inr r, w') \<longleftrightarrow> v = r \<and> w' = w"
  by (auto simp: return_def)

lemma raise_neq_Inr: "raise e w \<noteq> (Inr r, w')"
  by (simp add: raise_def)

lemma remote_call_fails:
  "fn (remote w) = (Inl msg, s') \<Longrightarrow>
   remote_call c p fn w = (Inl (facade_failure p msg), \<lparr>remote = s', calls = calls w @ [c]\<rparr>)"
  by (simp add: remote_call_def)

lemma bind_fails: "m w = (Inl e, w') \<Longrightarrow> bind m f w = (Inl e, w')"
  by (simp add: bind_def)

lemma remote_call_calls: "calls (snd (remote_call c p fn w)) = calls w @ [c]"
  by (simp add: remote_call_def split: prod.splits sum.splits)

lemma bind_remote_call_calls:
  assumes "\<And>v. issues_only P (f v)"
  shows "\<exists>rest. calls (snd (bind (remote_call c p fn) f w)) = calls w @ c # rest"
proof (cases "remote_call c p fn w")
  case (Pair r w1)
  then have w1: "calls w1 = calls w @ [c]" using remote_call_calls [of c p fn w] by simp
  show ?thesis
  proof (cases r)
    case (Inl e)
    with Pair w1 show ?thesis by (simp add: bind_def)
  next
    case (Inr v)
    from issues_onlyD [OF assms, of v w1] obtain ds where "calls (snd (f v w1)) = calls w1 @ ds"
      by blast
    with Pair Inr w1 show ?thesis by (simp add: bind_def)
  qed
qed

section \<open>update-task: the fetch before the update\<close>

lemma update_task_body_shape:
  assumes "ut_task_id args = Given tid" and "tid \<noteq> []"
  shows "\<exists>rest_of. await (handle_update_task lower api args)
                     = bind (remote_call (GetTask tid) ''Failed to get task: ''
                               (sdk_get_task api tid)) rest_of
                 \<and> (\<forall>v. issues_only (\<lambda>c. True) (rest_of v))"
  using assms
  apply (simp add: handle_update_task_def await_decorated update_task_body_def get_task_def
           split del: if_split)
  apply (intro exI conjI)
   apply (rule refl)
  apply (auto simp: facade_defs await_decorated Let_def intro!: issues_only_intros
           split: option.splits)
  done

lemma update_task_fetch_fails:
  assumes "ut_task_id args = Given tid" and "tid \<noteq> []"
    and "sdk_get_task api tid (remote w) = (Inl msg, s')"
  shows "await (handle_update_task lower api args) w
           = (Inl (facade_failure ''Failed to get task: '' msg),
              \<lparr>remote = s', calls = calls w @ [GetTask tid]\<rparr>)"
  using assms
  by (simp add: handle_update_task_def await_decorated update_task_body_def facade_defs
        bind_fails remote_call_fails)

lemma update_task_starts_with_fetch:
  assumes "ut_task_id args = Given tid" and "tid \<noteq> []"
  shows "\<exists>rest. calls (snd (await (handle_update_task lower api args) w))
                  = calls w @ GetTask tid # rest"
proof -
  from update_task_body_shape [OF assms, of lower api] obtain rest_of
    where body: "await (handle_update_task lower api args)
                   = bind (remote_call (GetTask tid) ''Failed to get task: ''
                             (sdk_get_task api tid)) rest_of"
      and rest: "\<And>v. issues_only (\<lambda>c. True) (rest_of v)"
    by blast
  show ?thesis
    unfolding body by (rule bind_remote_call_calls [OF rest])
qed

lemma update_task_without_id_no_call:
  assumes "ut_task_id args = Absent \<or> ut_task_id args = Null \<or> ut_task_id args = Given []"
  shows "snd (await (handle_update_task lower api args) w) = w"
  using assms
  by (auto simp: handle_update_task_def await_decorated update_task_body_def raise_def)

text \<open>
  C10. An update-task invocation with a non-empty task id issues \<open>get_task\<close> on that id
  as its first SDK call, whatever follows, so every update call it sends comes after the
  fetch; an invocation without a task id issues no call at all. When that first fetch
  fails, update-task raises the error of the fetch, and the fetch is the only call it has
  issued: no update call is sent, and the remote service is in the state in which the
  failed fetch left it. When the failed fetch leaves the state of the service as it was,
  as a read does, the state after the invocation is the state before it.
\<close>

theorem update_task_fetches_before_update:
  "(ut_task_id args = Given tid \<and> tid \<noteq> []
      \<longrightarrow> (\<exists>rest. calls (snd (await (handle_update_task lower api args) w))
                    = calls w @ GetTask tid # rest))
   \<and> (ut_task_id args = Absent \<or> ut_task_id args = Null \<or> ut_task_id args = Given []
      \<longrightarrow> snd (await (handle_update_task lower api args) w) = w)
   \<and> (ut_task_id args = Given tid \<and> tid \<noteq> []
        \<and> sdk_get_task api tid (remote w) = (Inl msg, s')
      \<longrightarrow> await (handle_update_task lower api args) w
            = (Inl (facade_failure ''Failed to get task: '' msg),
               \<lparr>remote = s', calls = calls w @ [GetTask tid]\<rparr>))
   \<and> (ut_task_id args = Given tid \<and> tid \<noteq> []
        \<and> sdk_get_task api tid (remote w) = (Inl msg, remote w)
      \<longrightarrow> await (handle_update_task lower api args) w
            = (Inl (facade_failure ''Failed to get task: '' msg),
               \<lparr>remote = remote w, calls = calls w @ [GetTask tid]\<rparr>))"
  using update_task_starts_with_fetch [of args tid lower api w]
    update_task_without_id_no_call [of args lower api w]
    update_task_fetch_fails [of args tid api w msg s' lower]
    update_task_fetch_fails [of args tid api w msg "remote w" lower]
  by blast

theorem update_task_fetches_before_update_witness:
  "ut_task_id (no_update\<lparr>ut_task_id := Given ''404'', ut_content := Given ''Buy milk''\<rparr>)
     = Given ''404''
   \<and> ''404'' \<noteq> []
   \<and> sdk_get_task (stub_sdk\<lparr>sdk_get_task := \<lambda>t n. (Inl ''404 Client Error: Not Found'', n)\<rparr>)
        ''404'' (remote world0)
       = (Inl ''404 Client Error: Not Found'', remote world0)
   \<and> (\<exists>rest. calls (snd (await (handle_update_task ascii_lower
                    (stub_sdk\<lparr>sdk_get_task := \<lambda>t n. (Inl ''404 Client Error: Not Found'', n)\<rparr>)
                    (no_update\<lparr>ut_task_id := Given ''404'', ut_content := Given ''Buy milk''\<rparr>))
                  world0))
               = calls world0 @ GetTask ''404'' # rest)
   \<and> await (handle_update_task ascii_lower
               (stub_sdk\<lparr>sdk_get_task := \<lambda>t n. (Inl ''404 Client Error: Not Found'', n)\<rparr>)
               (no_update\<lparr>ut_task_id := Given ''404'', ut_content := Given ''Buy milk''\<rparr>)) world0
       = (Inl (TodoistError ''Failed to get task: 404 Client Error: Not Found'' None),
          \<lparr>remote = remote world0, calls = calls world0 @ [GetTask ''404'']\<rparr>)
   \<and> ut_task_id no_update = Absent
   \<and> snd (await (handle_update_task ascii_lower stub_sdk no_update) world0) = world0"
proof -
  let ?a = "no_update\<lparr>ut_task_id := Given ''404'', ut_content := Given ''Buy milk''\<rparr>"
  let ?api = "stub_sdk\<lparr>sdk_get_task := \<lambda>t n. (Inl ''404 Client Error: Not Found'', n)\<rparr>"
  have h1: "ut_task_id ?a = Given ''404''" by simp
  have h2: "''404'' \<noteq> []" by simp
  have h3: "sdk_get_task ?api ''404'' (remote world0)
              = (Inl ''404 Client Error: Not Found'', remote world0)"
    by simp
  have h4: "ut_task_id no_update = Absent" by (simp add: no_update_def)
  have f: "facade_failure ''Failed to get task: '' ''404 Client Error: Not Found''
             = TodoistError ''Failed to get task: 404 Client Error: Not Found'' None"
    by (simp add: facade_failure_def startswith_def)
  note inst = update_task_fetches_before_update
               [of ?a "''404''" ascii_lower ?api world0 "''404 Client Error: Not Found''"
                   "remote world0"]
  from inst h1 h2
  have r1: "\<exists>rest. calls (snd (await (handle_update_task ascii_lower ?api ?a) world0))
                    = calls world0 @ GetTask ''404'' # rest"
    by blast
  from inst h1 h2 h3
  have "await (handle_update_task ascii_lower ?api ?a) world0
          = (Inl (facade_failure ''Failed to get task: '' ''404 Client Error: Not Found''),
             \<lparr>remote = remote world0, calls = calls world0 @ [GetTask ''404'']\<rparr>)"
    by blast
  then have r2: "await (handle_update_task ascii_lower ?api ?a) world0
          = (Inl (TodoistError ''Failed to get task: 404 Client Error: Not Found'' None),
             \<lparr>remote = remote world0, calls = calls world0 @ [GetTask ''404'']\<rparr>)"
    by (simp only: f)
  from update_task_fetches_before_update
         [of no_update "''404''" ascii_lower stub_sdk world0 "''404 Client Error: Not Found''"
             "remote world0"] h4
  have r3: "snd (await (handle_update_task ascii_lower stub_sdk no_update) world0) = world0"
    by blast
  from h1 h2 h3 r1 r2 h4 r3 show ?thesis by blast
qed

section \<open>What create-task and update-task surface\<close>

lemmas run_defs =
  bind_def remote_call_def lift_def return_def raise_def try_except_def facade_defs
  await_decorated

lemma stub_task_from_todoist: "task_from_todoist (stub_task tid c) = Inr (stub_output tid c)"
  by (simp add: task_from_todoist_def stub_task_def stub_output_def)

lemma update_task_success:
  assumes "await (handle_update_task lower api args) w = (Inr r, w')"
  shows "\<exists>tid c k pre s0 s1 t.
           ut_task_id args = Given tid
         \<and> calls w' = pre @ [UpdateTask tid c k, GetTask tid]
         \<and> sdk_update_task api tid c k s0 = (Inr True, s1)
         \<and> sdk_get_task api tid s1 = (Inr t, remote w')
         \<and> task_from_todoist t = Inr r"
proof (cases "ut_task_id args")
  case Absent
  with assms show ?thesis
    by (simp add: handle_update_task_def await_decorated update_task_body_def raise_neq_Inr)
next
  case Null
  with assms show ?thesis
    by (simp add: handle_update_task_def await_decorated update_task_body_def raise_neq_Inr)
next
  case (Given tid)
  show ?thesis
  proof (cases "tid = []")
    case True
    with Given assms show ?thesis
      by (simp add: handle_update_task_def await_decorated update_task_body_def raise_neq_Inr)
  next
    case False
    from assms Given False obtain c k w2 w3 t
      where upd: "remote_call (UpdateTask tid c k) ''Failed to update task: ''
                    (sdk_update_task api tid c k) w2 = (Inr True, w3)"
        and get: "remote_call (GetTask tid) ''Failed to get task: '' (sdk_get_task api tid) w3
                    = (Inr t, w')"
        and conv: "task_from_todoist t = Inr r"
      by (auto simp: handle_update_task_def await_decorated update_task_body_def facade_defs
            bind_eq_Inr lift_eq_Inr return_eq_Inr raise_neq_Inr split: if_splits)
    from upd obtain s1
      where u: "sdk_update_task api tid c k (remote w2) = (Inr True, s1)"
        and w3: "w3 = \<lparr>remote = s1, calls = calls w2 @ [UpdateTask tid c k]\<rparr>"
      by (auto simp: remote_call_eq_Inr)
    from get w3 obtain s2
      where g: "sdk_get_task api tid s1 = (Inr t, s2)"
        and w': "w' = \<lparr>remote = s2, calls = calls w2 @ [UpdateTask tid c k, GetTask tid]\<rparr>"
      by (auto simp: remote_call_eq_Inr)
    from g w' have g': "sdk_get_task api tid s1 = (Inr t, remote w')" by simp
    from w' have cs: "calls w' = calls w2 @ [UpdateTask tid c k, GetTask tid]"
      by simp
    from Given cs u g' conv show ?thesis by blast
  qed
qed

lemma create_task_success:
  assumes "await (handle_create_task lower api args) w = (Inr r, w')"
  shows "\<exists>c k pre s0 t.
           calls w' = pre @ [AddTask c k]
         \<and> sdk_add_task api c k s0 = (Inr t, remote w')
         \<and> task_from_todoist t = Inr r"
proof -
  from assms obtain c k w2 t
    where add: "remote_call (AddTask c k) ''Failed to create task: '' (sdk_add_task api c k) w2
                  = (Inr t, w')"
      and conv: "task_from_todoist t = Inr r"
    by (auto simp: handle_create_task_def await_decorated create_task_body_def facade_defs
          bind_eq_Inr lift_eq_Inr return_eq_Inr raise_neq_Inr split: if_splits)
  from add obtain s1
    where a: "sdk_add_task api c k (remote w2) = (Inr t, s1)"
      and w': "w' = \<lparr>remote = s1, calls = calls w2 @ [AddTask c k]\<rparr>"
    by (auto simp: remote_call_eq_Inr)
  from a w' have a': "sdk_add_task api c k (remote w2) = (Inr t, remote w')" by simp
  from w' have c: "calls w' = calls w2 @ [AddTask c k]" by simp
  from c a' conv show ?thesis by blast
qed

lemma stub_create_task:
  "await (handle_create_task lower stub_sdk (no_task_input\<lparr>in_content := Some ''Buy milk''\<rparr>)) world0
     = (Inr (stub_output ''100'' ''Buy milk''),
        \<lparr>remote = 1, calls = [AddTask ''Buy milk'' no_kwargs]\<rparr>)"
  by (simp add: handle_create_task_def await_decorated create_task_body_def facade_defs
        TaskMCPInput_of_def no_task_input_def bind_simps truthy_defs no_kwargs_def)
     (simp add: run_defs stub_sdk_def world0_def stub_task_from_todoist)

lemma stub_update_task:
  "await (handle_update_task lower stub_sdk
            (no_update\<lparr>ut_task_id := Given ''100'', ut_content := Given ''Buy milk''\<rparr>)) world0
     = (Inr (stub_output ''100'' ''Buy oat milk''),
        \<lparr>remote = 3, calls = [GetTask ''100'', UpdateTask ''100'' (Some ''Buy milk'') no_kwargs,
                              GetTask ''100'']\<rparr>)"
  by (simp add: handle_update_task_def await_decorated update_task_body_def facade_defs
        no_update_def bind_simps truthy_defs no_kwargs_def)
     (simp add: run_defs stub_sdk_def world0_def numeral_3_eq_3 stub_task_from_todoist)

text \<open>
  C3, as the code has it. When update-task succeeds, the last two SDK calls are the update
  and then \<open>get_task\<close> on the same id, and the record surfaced is the model of the task
  which that second read returned from the state the update left. When create-task
  succeeds, its last SDK call is the creation and the record surfaced is the model of the
  task that the creation call itself returned.
\<close>

theorem update_refetches_create_returns_response:
  "(await (handle_update_task lower api uargs) w = (Inr r, w')
      \<longrightarrow> (\<exists>tid c k pre s0 s1 t.
             ut_task_id uargs = Given tid
           \<and> calls w' = pre @ [UpdateTask tid c k, GetTask tid]
           \<and> sdk_update_task api tid c k s0 = (Inr True, s1)
           \<and> sdk_get_task api tid s1 = (Inr t, remote w')
           \<and> task_from_todoist t = Inr r))
   \<and> (await (handle_create_task lower api cargs) v = (Inr r2, v')
      \<longrightarrow> (\<exists>c k pre s0 t.
             calls v' = pre @ [AddTask c k]
           \<and> sdk_add_task api c k s0 = (Inr t, remote v')
           \<and> task_from_todoist t = Inr r2))"
  using update_task_success [of lower api uargs w r w']
    create_task_success [of lower api cargs v r2 v']
  by blast

theorem update_refetches_create_returns_response_witness:
  "await (handle_update_task ascii_lower stub_sdk
            (no_update\<lparr>ut_task_id := Given ''100'', ut_content := Given ''Buy milk''\<rparr>)) world0
     = (Inr (stub_output ''100'' ''Buy oat milk''),
        \<lparr>remote = 3, calls = [GetTask ''100'', UpdateTask ''100'' (Some ''Buy milk'') no_kwargs,
                              GetTask ''100'']\<rparr>)
   \<and> (\<exists>tid c k pre s0 s1 t.
         ut_task_id (no_update\<lparr>ut_task_id := Given ''100'', ut_content := Given ''Buy milk''\<rparr>)
           = Given tid
       \<and> calls \<lparr>remote = 3::nat,
                 calls = [GetTask ''100'', UpdateTask ''100'' (Some ''Buy milk'') no_kwargs,
                          GetTask ''100'']\<rparr>
           = pre @ [UpdateTask tid c k, GetTask tid]
       \<and> sdk_update_task stub_sdk tid c k s0 = (Inr True, s1)
       \<and> sdk_get_task stub_sdk tid s1
           = (Inr t, remote \<lparr>remote = 3::nat,
                             calls = [GetTask ''100'',
                                      UpdateTask ''100'' (Some ''Buy milk'') no_kwargs,
                                      GetTask ''100'']\<rparr>)
       \<and> task_from_todoist t = Inr (stub_output ''100'' ''Buy oat milk''))
   \<and> await (handle_create_task ascii_lower stub_sdk (no_task_input\<lparr>in_content := Some ''Buy milk''\<rparr>))
        world0
     = (Inr (stub_output ''100'' ''Buy milk''),
        \<lparr>remote = 1, calls = [AddTask ''Buy milk'' no_kwargs]\<rparr>)
   \<and> (\<exists>c k pre s0 t.
         calls \<lparr>remote = 1::nat, calls = [AddTask ''Buy milk'' no_kwargs]\<rparr> = pre @ [AddTask c k]
       \<and> sdk_add_task stub_sdk c k s0
           = (Inr t, remote \<lparr>remote = 1::nat, calls = [AddTask ''Buy milk'' no_kwargs]\<rparr>)
       \<and> task_from_todoist t = Inr (stub_output ''100'' ''Buy milk''))"
  using update_refetches_create_returns_response
          [of ascii_lower stub_sdk "no_update\<lparr>ut_task_id := Given ''100'', ut_content := Given ''Buy milk''\<rparr>"
              world0 "stub_output ''100'' ''Buy oat milk''"
              "\<lparr>remote = 3, calls = [GetTask ''100'',
                                     UpdateTask ''100'' (Some ''Buy milk'') no_kwargs,
                                     GetTask ''100'']\<rparr>"
              "no_task_input\<lparr>in_content := Some ''Buy milk''\<rparr>" world0
              "stub_output ''100'' ''Buy milk''"
              "\<lparr>remote = 1, calls = [AddTask ''Buy milk'' no_kwargs]\<rparr>"]
        stub_update_task stub_create_task
  by blast

text \<open>
  On the stand-in service create-task succeeds with \<open>add_task\<close> as its only SDK call: no
  read follows the creation. The record it surfaces is the response of the creation call,
  and it is not the record that reading the new task would give.
\<close>

theorem create_task_no_second_read_counterexample:
  "await (handle_create_task ascii_lower stub_sdk (no_task_input\<lparr>in_content := Some ''Buy milk''\<rparr>)) world0
     = (Inr (stub_output ''100'' ''Buy milk''),
        \<lparr>remote = 1, calls = [AddTask ''Buy milk'' no_kwargs]\<rparr>)
   \<and> fst (sdk_get_task stub_sdk ''100'' 1) = Inr (stub_task ''100'' ''Buy oat milk'')
   \<and> task_from_todoist (stub_task ''100'' ''Buy oat milk'')
       \<noteq> Inr (stub_output ''100'' ''Buy milk'')"
proof -
  have a: "fst (sdk_get_task stub_sdk ''100'' 1) = Inr (stub_task ''100'' ''Buy oat milk'')"
    by (simp add: stub_sdk_def)
  have b: "task_from_todoist (stub_task ''100'' ''Buy oat milk'')
             \<noteq> Inr (stub_output ''100'' ''Buy milk'')"
    by (simp add: stub_task_from_todoist stub_output_def)
  from stub_create_task a b show ?thesis by blast
qed

section \<open>Name resolution in update-task\<close>

text \<open>
  The lookup loop returns the identifier of the first entity whose lowered name equals
  the lowered name asked for, and leaves the variable as it was when there is none.
\<close>

lemma name_loop_find:
  "name_loop lower name_of id_of n es cur
     = (case find (\<lambda>e. lower (name_of e) = lower n) es of
          Some e \<Rightarrow> Some (id_of e)
        | None \<Rightarrow> cur)"
  by (induction es) simp_all

text \<open>
  C4, at the input on which the code departs from it. The account has the projects
  Inbox, Home and HOME. update-task is called with \<open>task_id = "100"\<close>, an empty
  \<open>project_id\<close> and \<open>project_name = "Nonexistent"\<close>. The handler looks the name up,
  finds no project, and raises nothing: the key \<open>project_id\<close> is in the arguments, which
  is all it tests. It sends the update with the empty project id and reports the task as
  updated. create-task, called with the same project id and name, raises
  \<open>ValidationError\<close> "Project not found: Nonexistent" after the lookup.
\<close>

theorem update_task_unmatched_project_name:
  "await (handle_update_task ascii_lower stub_sdk
            (no_update\<lparr>ut_task_id := Given ''100'', ut_project_id := Given '''',
                        ut_project_name := Given ''Nonexistent''\<rparr>)) world0
     = (Inr (stub_output ''100'' ''Buy oat milk''),
        \<lparr>remote = 4,
         calls = [GetTask ''100'', GetProjects,
                  UpdateTask ''100'' None (no_kwargs\<lparr>kw_project_id := Some ''''\<rparr>),
                  GetTask ''100'']\<rparr>)
   \<and> await (handle_create_task ascii_lower stub_sdk
            (no_task_input\<lparr>in_content := Some ''Buy milk'', in_project_id := Some '''',
                            in_project_name := Some ''Nonexistent''\<rparr>)) world0
     = (Inl (ValidationError ''Project not found: Nonexistent'' None),
        \<lparr>remote = 1, calls = [GetProjects]\<rparr>)"
proof -
  have a: "await (handle_update_task ascii_lower stub_sdk
            (no_update\<lparr>ut_task_id := Given ''100'', ut_project_id := Given '''',
                        ut_project_name := Given ''Nonexistent''\<rparr>)) world0
     = (Inr (stub_output ''100'' ''Buy oat milk''),
        \<lparr>remote = 4,
         calls = [GetTask ''100'', GetProjects,
                  UpdateTask ''100'' None (no_kwargs\<lparr>kw_project_id := Some ''''\<rparr>),
                  GetTask ''100'']\<rparr>)"
    by (simp add: handle_update_task_def await_decorated update_task_body_def facade_defs
          no_update_def bind_simps truthy_defs no_kwargs_def)
       (simp add: run_defs stub_sdk_def world0_def stub_task_from_todoist
          stub_project_def ascii_lower_def lower_char_def eval_nat_numeral)
  have b: "await (handle_create_task ascii_lower stub_sdk
            (no_task_input\<lparr>in_content := Some ''Buy milk'', in_project_id := Some '''',
                            in_project_name := Some ''Nonexistent''\<rparr>)) world0
     = (Inl (ValidationError ''Project not found: Nonexistent'' None),
        \<lparr>remote = 1, calls = [GetProjects]\<rparr>)"
    by (simp add: handle_create_task_def await_decorated create_task_body_def facade_defs
          no_task_input_def TaskMCPInput_of_def bind_simps truthy_defs no_kwargs_def)
       (simp add: run_defs stub_sdk_def world0_def truthy_defs stub_project_def ascii_lower_def
          lower_char_def)
  from a b show ?thesis by blast
qed

section \<open>Missing required fields\<close>

text \<open>
  C8, at the input on which the code departs from it. update-task called without the
  key \<open>task_id\<close> raises \<open>KeyError\<close>, not \<open>ValidationError\<close>, and issues no call.
  complete-task and delete-task without a task id, and update-label and delete-label with
  neither a label id nor a label name, raise \<open>ValidationError\<close>.
\<close>

theorem update_task_without_task_id:
  "await (handle_update_task lower api (args\<lparr>ut_task_id := Absent\<rparr>)) w
     = (Inl (KeyError ''task_id''), w)
   \<and> await (handle_complete_task lower api None) w
     = (Inl (ValidationError ''Task ID is required'' None), w)
   \<and> await (handle_delete_task lower api None) w
     = (Inl (ValidationError ''Task ID is required'' None), w)
   \<and> await (handle_update_label lower api (la\<lparr>ul_label_id := None, ul_label_name := None\<rparr>)) w
     = (Inl (ValidationError ''Either label_id or label_name is required'' None), w)
   \<and> await (handle_delete_label lower api (None, None)) w
     = (Inl (ValidationError ''Either label_id or label_name is required'' None), w)"
  by (simp add: handle_update_task_def handle_complete_task_def handle_delete_task_def
        handle_update_label_def handle_delete_label_def
        await_decorated update_task_body_def complete_task_body_def delete_task_body_def
        update_label_body_def delete_label_body_def raise_def truthy_defs)

section \<open>The default of favorite in create-label\<close>

text \<open>
  C9, at the input on which the code departs from it. create-label called with a name
  and without the key \<open>favorite\<close> sends \<open>add_label\<close> with \<open>favorite = False\<close>.
\<close>

theorem create_label_default_favorite:
  "calls (snd (await (handle_create_label lower api
                        \<lparr>cl_name = Given n, cl_color = None, cl_favorite = Absent\<rparr>) w))
     = calls w @ [AddLabel n None (Some False)]"
  by (simp add: handle_create_label_def await_decorated create_label_body_def facade_defs
        LabelMCPInput_of_def validate_color_def truthy_defs bind_simps)
     (simp add: bind_def remote_call_def return_def split: prod.splits sum.splits)

section \<open>What the decorator does with an exception\<close>

text \<open>
  The wrapper is a plain function around an \<open>async def\<close>: awaiting a decorated handler
  runs its body outside the wrapper's \<open>try\<close> (lemma \<open>await_decorated\<close>). create-label
  with a color outside the palette raises the \<open>ValueError\<close> of the model unchanged.
\<close>

lemma async_handler_not_normalised:
  "\<exists>m. await (handle_create_label lower api
                  \<lparr>cl_name = Given ''later'', cl_color = Some ''purple'', cl_favorite = Absent\<rparr>) w
          = (Inl (ValueError m), w)"
  by (simp add: handle_create_label_def await_decorated create_label_body_def
        LabelMCPInput_of_def validate_color_def truthy_defs bind_simps TodoistColor_def
        raise_def)






section \<open>The limit of the list tools\<close>

lemma tasks_from_todoist_replicate:
  "task_from_todoist t = Inr m \<Longrightarrow> tasks_from_todoist (replicate n t) = Inr (replicate n m)"
  by (induction n) simp_all

text \<open>
  C2, at the input on which the code departs from it. The account holds 101 open tasks
  and list-tasks is called with no argument at all. The handler applies no default
  limit: it returns all 101 tasks. For list-projects and list-labels an absent limit
  likewise leaves the list as it is.
\<close>

theorem list_tasks_without_limit:
  "await (handle_list_tasks lower stub_sdk no_filter) world0
     = (Inr (replicate 101 (stub_output ''1'' ''Read mail'')),
        \<lparr>remote = 1, calls = [GetTasks None None None None]\<rparr>)
   \<and> length (replicate 101 (stub_output ''1'' ''Read mail'')) = 101
   \<and> apply_limit None xs = xs"
  by (simp add: handle_list_tasks_def await_decorated list_tasks_body_def facade_defs
        TaskFilterMCPInput_of_def no_filter_def bind_simps truthy_defs compose_filter_def
        apply_limit_def)
     (simp add: run_defs stub_sdk_def world0_def
        tasks_from_todoist_replicate [OF stub_task_from_todoist])

section \<open>An identifier given together with a name\<close>

















































end
